theory Spec2Isabelle
  imports Complex_Main
begin

section \<open>Numbers and data\<close>

text \<open>
  The two estimators of the repository are \<open>findPlanesRansac\<close>
  (app/src/main/cpp/ransac.cpp) and \<open>detect_walls_ransac\<close>
  (android/app/src/main/cpp/ransac.cpp).

  A C++ \<open>float\<close> is modelled as a real number and every arithmetic operation is exact:
  rounding, overflow, infinities and NaN of IEEE-754 are not represented. The only NaN the
  source produces on purpose, the plane \<open>{NAN, NAN, NAN, NAN}\<close> that \<open>calculatePlane\<close>
  returns for a degenerate triple and that the caller tests with \<open>std::isnan\<close>, is the
  value \<open>None\<close>. Numeric literals carry the exact value of the C++ literal. What
  turns on a NaN, an infinity or an overflow is stated over a second embedding of the same
  lines, which follows this one.

  A C++ \<open>int\<close> is an \<open>int\<close>; the one conversion to \<open>size_t\<close> is written out.
  The depth buffer is a bare pointer read by index, hence a function from indices to
  values: the estimators receive no buffer length, and a read past the end of the caller's
  buffer is not a failure of the model.
\<close>

type_synonym depth_map = "int \<Rightarrow> real"

datatype Point3D = Point3D (p_x: real) (p_y: real) (p_z: real)

datatype Plane = Plane (pl_a: real) (pl_b: real) (pl_c: real) (pl_d: real)

datatype PlaneResult =
  PlaneResult (res_A: real) (res_B: real) (res_C: real) (res_D: real) (numInliers: int)

datatype RansacPlaneResult =
  RansacPlaneResult (out_a: real) (out_b: real) (out_c: real) (out_d: real) (inlier_count: int)

text \<open>The double literal \<open>1e-5\<close>, the float literals \<open>1000.0f\<close> and \<open>0.01f\<close>.\<close>

definition lit_1e_5 :: real where
  "lit_1e_5 = 5902958103587057 / 2 ^ 69"

definition lit_1000f :: real where
  "lit_1000f = 1000"

definition lit_0_01f :: real where
  "lit_0_01f = 5368709 / 2 ^ 29"

section \<open>Point-cloud construction\<close>

subsection \<open>findPlanesRansac, lines 118 to 140\<close>

text \<open>The body of the inner loop at row \<open>v\<close>, column \<open>u\<close>; each \<open>continue\<close> leaves
  the cloud as it is.\<close>

definition app_cell ::
  "depth_map \<Rightarrow> int \<Rightarrow> real \<Rightarrow> real \<Rightarrow> real \<Rightarrow> real \<Rightarrow> int \<Rightarrow> int
     \<Rightarrow> Point3D list \<Rightarrow> Point3D list" where
  "app_cell depthMap width fx fy cx cy v u pointCloud =
     (let index = v * width + u;
          inverseDepth = depthMap index
      in if inverseDepth < lit_1e_5 then pointCloud
         else
           let z = 1 / inverseDepth
           in if z > lit_1000f then pointCloud
              else
                let x = (of_int u - cx) * z / fx;
                    y = (of_int v - cy) * z / fy
                in pointCloud @ [Point3D x y z])"

function app_cols ::
  "depth_map \<Rightarrow> int \<Rightarrow> real \<Rightarrow> real \<Rightarrow> real \<Rightarrow> real \<Rightarrow> int \<Rightarrow> int
     \<Rightarrow> Point3D list \<Rightarrow> Point3D list" where
  "app_cols depthMap width fx fy cx cy v u pointCloud =
     (if u < width
      then app_cols depthMap width fx fy cx cy v (u + 1)
             (app_cell depthMap width fx fy cx cy v u pointCloud)
      else pointCloud)"
  by pat_completeness auto
termination
  by (relation "measure (\<lambda>(depthMap, width, fx, fy, cx, cy, v, u, pointCloud). nat (width - u))")
     auto

declare app_cols.simps [simp del]

function app_rows ::
  "depth_map \<Rightarrow> int \<Rightarrow> int \<Rightarrow> real \<Rightarrow> real \<Rightarrow> real \<Rightarrow> real \<Rightarrow> int
     \<Rightarrow> Point3D list \<Rightarrow> Point3D list" where
  "app_rows depthMap width height fx fy cx cy v pointCloud =
     (if v < height
      then app_rows depthMap width height fx fy cx cy (v + 1)
             (app_cols depthMap width fx fy cx cy v 0 pointCloud)
      else pointCloud)"
  by pat_completeness auto
termination
  by (relation
        "measure (\<lambda>(depthMap, width, height, fx, fy, cx, cy, v, pointCloud). nat (height - v))")
     auto

declare app_rows.simps [simp del]

definition app_point_cloud ::
  "depth_map \<Rightarrow> int \<Rightarrow> int \<Rightarrow> real \<Rightarrow> real \<Rightarrow> real \<Rightarrow> real \<Rightarrow> Point3D list" where
  "app_point_cloud depthMap width height fx fy cx cy =
     app_rows depthMap width height fx fy cx cy 0 []"

subsection \<open>detect_walls_ransac, lines 44 to 71\<close>

definition wall_cell ::
  "depth_map \<Rightarrow> int \<Rightarrow> real \<Rightarrow> real \<Rightarrow> real \<Rightarrow> real \<Rightarrow> int \<Rightarrow> int
     \<Rightarrow> Point3D list \<Rightarrow> Point3D list" where
  "wall_cell depth_map_data width fx fy cx cy v u point_cloud =
     (let inv_d = depth_map_data (v * width + u)
      in if inv_d > lit_0_01f
         then
           let Z = 1 / inv_d;
               X = (of_int u - cx) * Z / fx;
               Y = (of_int v - cy) * Z / fy;
               Y = - Y
           in point_cloud @ [Point3D X Y Z]
         else point_cloud)"

function wall_cols ::
  "depth_map \<Rightarrow> int \<Rightarrow> real \<Rightarrow> real \<Rightarrow> real \<Rightarrow> real \<Rightarrow> int \<Rightarrow> int
     \<Rightarrow> Point3D list \<Rightarrow> Point3D list" where
  "wall_cols depth_map_data width fx fy cx cy v u point_cloud =
     (if u < width
      then wall_cols depth_map_data width fx fy cx cy v (u + 1)
             (wall_cell depth_map_data width fx fy cx cy v u point_cloud)
      else point_cloud)"
  by pat_completeness auto
termination
  by (relation "measure (\<lambda>(depthMap, width, fx, fy, cx, cy, v, u, pointCloud). nat (width - u))")
     auto

declare wall_cols.simps [simp del]

function wall_rows ::
  "depth_map \<Rightarrow> int \<Rightarrow> int \<Rightarrow> real \<Rightarrow> real \<Rightarrow> real \<Rightarrow> real \<Rightarrow> int
     \<Rightarrow> Point3D list \<Rightarrow> Point3D list" where
  "wall_rows depth_map_data width height fx fy cx cy v point_cloud =
     (if v < height
      then wall_rows depth_map_data width height fx fy cx cy (v + 1)
             (wall_cols depth_map_data width fx fy cx cy v 0 point_cloud)
      else point_cloud)"
  by pat_completeness auto
termination
  by (relation
        "measure (\<lambda>(depthMap, width, height, fx, fy, cx, cy, v, pointCloud). nat (height - v))")
     auto

declare wall_rows.simps [simp del]

definition wall_point_cloud ::
  "depth_map \<Rightarrow> int \<Rightarrow> int \<Rightarrow> real \<Rightarrow> real \<Rightarrow> real \<Rightarrow> real \<Rightarrow> Point3D list" where
  "wall_point_cloud depth_map_data width height fx fy cx cy =
     wall_rows depth_map_data width height fx fy cx cy 0 []"

subsection \<open>The grid in row-major order\<close>

text \<open>The cells \<open>(v, u)\<close> of a \<open>width\<close> by \<open>height\<close> grid, rows first, columns
  ascending within a row. It is empty when a dimension is not positive.\<close>

definition row_cells :: "int \<Rightarrow> int \<Rightarrow> int \<Rightarrow> (int \<times> int) list" where
  "row_cells width v u0 = map (\<lambda>u. (v, u)) [u0..width - 1]"

definition grid_cells :: "int \<Rightarrow> int \<Rightarrow> (int \<times> int) list" where
  "grid_cells width height = concat (map (\<lambda>v. row_cells width v 0) [0..height - 1])"

section \<open>The random source\<close>

text \<open>
  Both estimators build \<open>std::mt19937\<close> seeded from \<open>std::random_device\<close> and read
  indices through \<open>std::uniform_int_distribution<size_t>(0, size - 1)\<close>. The model takes
  the sequence of indices that the successive calls \<open>dist(rng)\<close> return as a list. A call
  takes the head of the list. The distribution only yields indices below \<open>n\<close>, the size
  of the cloud, so a list with a greater head is not a sequence of draws. A run that needs a
  draw the list cannot give has no result (\<open>None\<close>).
\<close>

type_synonym rng = "nat list"

definition draw :: "nat \<Rightarrow> rng \<Rightarrow> (nat \<times> rng) option" where
  "draw n rng =
     (case rng of
        [] \<Rightarrow> None
      | i # rest \<Rightarrow> if i < n then Some (i, rest) else None)"

section \<open>Planes and scoring\<close>

text \<open>\<open>std::numeric_limits<float>::epsilon()\<close> and the double literal \<open>1e-6\<close>.\<close>

definition float_epsilon :: real where
  "float_epsilon = 1 / 2 ^ 23"

definition lit_1e_6 :: real where
  "lit_1e_6 = 4722366482869645 / 2 ^ 72"

text \<open>\<open>calculatePlane\<close> (app ransac.cpp, lines 33 to 64); \<open>None\<close> is the NaN plane.\<close>

definition calculatePlane :: "Point3D \<Rightarrow> Point3D \<Rightarrow> Point3D \<Rightarrow> Plane option" where
  "calculatePlane p1 p2 p3 =
     (let v1 = Point3D (p_x p2 - p_x p1) (p_y p2 - p_y p1) (p_z p2 - p_z p1);
          v2 = Point3D (p_x p3 - p_x p1) (p_y p3 - p_y p1) (p_z p3 - p_z p1);
          a = p_y v1 * p_z v2 - p_z v1 * p_y v2;
          b = p_z v1 * p_x v2 - p_x v1 * p_z v2;
          c = p_x v1 * p_y v2 - p_y v1 * p_x v2;
          len = sqrt (a * a + b * b + c * c)
      in if len > float_epsilon * 100
         then
           let a = a / len;
               b = b / len;
               c = c / len;
               d = - (a * p_x p1 + b * p_y p1 + c * p_z p1)
           in Some (Plane a b c d)
         else None)"

definition pointPlaneDistance :: "Point3D \<Rightarrow> Plane \<Rightarrow> real" where
  "pointPlaneDistance point plane =
     \<bar>pl_a plane * p_x point + pl_b plane * p_y point + pl_c plane * p_z point + pl_d plane\<bar>"

text \<open>The scoring loop of \<open>findPlanesRansac\<close> (lines 180 to 185) over the cloud.\<close>

fun app_count_inliers :: "Plane \<Rightarrow> real \<Rightarrow> Point3D list \<Rightarrow> int \<Rightarrow> int" where
  "app_count_inliers currentPlane distanceThreshold [] currentInliers = currentInliers"
| "app_count_inliers currentPlane distanceThreshold (point # rest) currentInliers =
     app_count_inliers currentPlane distanceThreshold rest
       (if pointPlaneDistance point currentPlane < distanceThreshold
        then currentInliers + 1 else currentInliers)"

text \<open>The scoring loop of \<open>detect_walls_ransac\<close> (lines 133 to 144).\<close>

fun wall_count_inliers ::
  "real \<Rightarrow> real \<Rightarrow> real \<Rightarrow> real \<Rightarrow> real \<Rightarrow> Point3D list \<Rightarrow> int \<Rightarrow> int" where
  "wall_count_inliers A B C D distance_threshold [] current_inlier_count = current_inlier_count"
| "wall_count_inliers A B C D distance_threshold (pt # rest) current_inlier_count =
     wall_count_inliers A B C D distance_threshold rest
       (let distance = \<bar>A * p_x pt + B * p_y pt + C * p_z pt + D\<bar>
        in if distance < distance_threshold
           then current_inlier_count + 1 else current_inlier_count)"

section \<open>One iteration\<close>

text \<open>What an iteration of the sampling loop comes to: it ends at a \<open>continue\<close>
  (indices that collide, a degenerate triple) or it scores a candidate plane.\<close>

datatype outcome = Collision | Degenerate | Scored Plane int

text \<open>Step d of both loops: the best plane and its count, replaced by a scored candidate
  with a greater count and kept at every \<open>continue\<close>.\<close>

definition update_best :: "Plane \<times> int \<Rightarrow> outcome \<Rightarrow> Plane \<times> int" where
  "update_best best oc =
     (case oc of
        Scored currentPlane currentInliers \<Rightarrow>
          if currentInliers > snd best then (currentPlane, currentInliers) else best
      | _ \<Rightarrow> best)"

text \<open>Three calls of the distribution in a row: the first three statements of the body
  of either loop.\<close>

definition draw_triple :: "nat \<Rightarrow> rng \<Rightarrow> ((nat \<times> nat \<times> nat) \<times> rng) option" where
  "draw_triple n rng =
     (case draw n rng of
        None \<Rightarrow> None
      | Some (idx1, rng1) \<Rightarrow>
          (case draw n rng1 of
             None \<Rightarrow> None
           | Some (idx2, rng2) \<Rightarrow>
               (case draw n rng2 of
                  None \<Rightarrow> None
                | Some (idx3, rng3) \<Rightarrow> Some ((idx1, idx2, idx3), rng3))))"

subsection \<open>findPlanesRansac, lines 160 to 185\<close>

definition app_candidate :: "Point3D list \<Rightarrow> real \<Rightarrow> nat \<times> nat \<times> nat \<Rightarrow> outcome" where
  "app_candidate pointCloud distanceThreshold idx =
     (case idx of (idx1, idx2, idx3) \<Rightarrow>
        if idx1 = idx2 \<or> idx1 = idx3 \<or> idx2 = idx3 then Collision
        else
          (case calculatePlane (pointCloud ! idx1) (pointCloud ! idx2) (pointCloud ! idx3) of
             None \<Rightarrow> Degenerate
           | Some currentPlane \<Rightarrow>
               Scored currentPlane
                 (app_count_inliers currentPlane distanceThreshold pointCloud 0)))"

definition app_iteration :: "Point3D list \<Rightarrow> real \<Rightarrow> rng \<Rightarrow> (outcome \<times> rng) option" where
  "app_iteration pointCloud distanceThreshold rng =
     (case draw_triple (length pointCloud) rng of
        None \<Rightarrow> None
      | Some (idx, rng') \<Rightarrow> Some (app_candidate pointCloud distanceThreshold idx, rng'))"

subsection \<open>detect_walls_ransac, lines 94 to 144\<close>

text \<open>The two \<open>while\<close> loops that draw again on a collision. Neither is bounded.\<close>

function wall_while_idx2 :: "nat \<Rightarrow> nat \<Rightarrow> nat \<Rightarrow> rng \<Rightarrow> (nat \<times> rng) option" where
  "wall_while_idx2 n idx1 idx2 rng =
     (if idx2 = idx1
      then (case draw n rng of
              None \<Rightarrow> None
            | Some (i, rng') \<Rightarrow> wall_while_idx2 n idx1 i rng')
      else Some (idx2, rng))"
  by pat_completeness auto
termination
  by (relation "measure (\<lambda>(n, idx1, idx2, rng). length rng)") (auto simp: draw_def split: list.splits if_splits)

declare wall_while_idx2.simps [simp del]

function wall_while_idx3 :: "nat \<Rightarrow> nat \<Rightarrow> nat \<Rightarrow> nat \<Rightarrow> rng \<Rightarrow> (nat \<times> rng) option" where
  "wall_while_idx3 n idx1 idx2 idx3 rng =
     (if idx3 = idx1 \<or> idx3 = idx2
      then (case draw n rng of
              None \<Rightarrow> None
            | Some (i, rng') \<Rightarrow> wall_while_idx3 n idx1 idx2 i rng')
      else Some (idx3, rng))"
  by pat_completeness auto
termination
  by (relation "measure (\<lambda>(n, idx1, idx2, idx3, rng). length rng)") (auto simp: draw_def split: list.splits if_splits)

declare wall_while_idx3.simps [simp del]

definition wall_sample :: "nat \<Rightarrow> rng \<Rightarrow> ((nat \<times> nat \<times> nat) \<times> rng) option" where
  "wall_sample n rng =
     (case draw_triple n rng of
        None \<Rightarrow> None
      | Some ((idx1, idx2, idx3), rng3) \<Rightarrow>
          (case wall_while_idx2 n idx1 idx2 rng3 of
             None \<Rightarrow> None
           | Some (idx2, rng4) \<Rightarrow>
               (case wall_while_idx3 n idx1 idx2 idx3 rng4 of
                  None \<Rightarrow> None
                | Some (idx3, rng5) \<Rightarrow> Some ((idx1, idx2, idx3), rng5))))"

definition wall_candidate :: "Point3D list \<Rightarrow> real \<Rightarrow> nat \<times> nat \<times> nat \<Rightarrow> outcome" where
  "wall_candidate point_cloud distance_threshold idx =
     (case idx of (idx1, idx2, idx3) \<Rightarrow>
        let p1 = point_cloud ! idx1;
            p2 = point_cloud ! idx2;
            p3 = point_cloud ! idx3;
            v1x = p_x p2 - p_x p1;
            v1y = p_y p2 - p_y p1;
            v1z = p_z p2 - p_z p1;
            v2x = p_x p3 - p_x p1;
            v2y = p_y p3 - p_y p1;
            v2z = p_z p3 - p_z p1;
            A = v1y * v2z - v1z * v2y;
            B = v1z * v2x - v1x * v2z;
            C = v1x * v2y - v1y * v2x;
            magnitude = sqrt (A * A + B * B + C * C)
        in if magnitude < lit_1e_6 then Degenerate
           else
             let A = A / magnitude;
                 B = B / magnitude;
                 C = C / magnitude;
                 D = - (A * p_x p1 + B * p_y p1 + C * p_z p1)
             in Scored (Plane A B C D)
                  (wall_count_inliers A B C D distance_threshold point_cloud 0))"

definition wall_iteration :: "Point3D list \<Rightarrow> real \<Rightarrow> rng \<Rightarrow> (outcome \<times> rng) option" where
  "wall_iteration point_cloud distance_threshold rng =
     (case wall_sample (length point_cloud) rng of
        None \<Rightarrow> None
      | Some (idx, rng') \<Rightarrow> Some (wall_candidate point_cloud distance_threshold idx, rng'))"

section \<open>The sampling loop and the two estimators\<close>

text \<open>
  \<open>for (int iter = 0; iter < maxIterations; ++iter)\<close> is the same loop in both files; the
  body is a parameter. The state is the best plane with its count, and the random source.
\<close>

function ransac_loop ::
  "(rng \<Rightarrow> (outcome \<times> rng) option) \<Rightarrow> int \<Rightarrow> int \<Rightarrow> rng \<Rightarrow> Plane \<times> int
     \<Rightarrow> ((Plane \<times> int) \<times> rng) option" where
  "ransac_loop body maxIterations iter rng best =
     (if iter < maxIterations
      then (case body rng of
              None \<Rightarrow> None
            | Some (oc, rng') \<Rightarrow>
                ransac_loop body maxIterations (iter + 1) rng' (update_best best oc))
      else Some (best, rng))"
  by pat_completeness auto
termination
  by (relation "measure (\<lambda>(body, maxIterations, iter, rng, best). nat (maxIterations - iter))")
     auto

declare ransac_loop.simps [simp del]

text \<open>The outcomes of the iterations of a run of the loop, in the order of the iterations,
  and the scored candidates among them.\<close>

function loop_outcomes ::
  "(rng \<Rightarrow> (outcome \<times> rng) option) \<Rightarrow> int \<Rightarrow> int \<Rightarrow> rng \<Rightarrow> outcome list option" where
  "loop_outcomes body maxIterations iter rng =
     (if iter < maxIterations
      then (case body rng of
              None \<Rightarrow> None
            | Some (oc, rng') \<Rightarrow>
                (case loop_outcomes body maxIterations (iter + 1) rng' of
                   None \<Rightarrow> None
                 | Some ocs \<Rightarrow> Some (oc # ocs)))
      else Some [])"
  by pat_completeness auto
termination
  by (relation "measure (\<lambda>(body, maxIterations, iter, rng). nat (maxIterations - iter))") auto

declare loop_outcomes.simps [simp del]

fun scored :: "outcome list \<Rightarrow> (Plane \<times> int) list" where
  "scored [] = []"
| "scored (Scored plane n # ocs) = (plane, n) # scored ocs"
| "scored (Collision # ocs) = scored ocs"
| "scored (Degenerate # ocs) = scored ocs"

text \<open>\<open>static_cast<size_t>\<close> of an \<open>int\<close>, with a \<open>size_t\<close> of 64 bits.\<close>

definition size_t_of_int :: "int \<Rightarrow> int" where
  "size_t_of_int i = i mod 2 ^ 64"

text \<open>
  Both estimators start with \<open>reserve(width * height / 4)\<close> on the empty vector of
  points. The division of two \<open>int\<close> truncates toward zero, the quotient is converted to
  \<open>size_t\<close>, and \<open>reserve\<close> throws \<open>std::length_error\<close> for a request above
  \<open>max_size()\<close>, which is \<open>SIZE_MAX / sizeof(Point3D)\<close> with three floats of four bytes
  each. Nothing catches the exception. A request that is not above \<open>max_size()\<close> is taken
  to succeed: running out of memory is not modelled, and neither is the overflow of
  \<open>width * height\<close>.
\<close>

datatype error = length_error

definition c_div :: "int \<Rightarrow> int \<Rightarrow> int" where
  "c_div a b =
     (if (a < 0) = (b < 0) then \<bar>a\<bar> div \<bar>b\<bar> else - (\<bar>a\<bar> div \<bar>b\<bar>))"

definition vector_max_size :: int where
  "vector_max_size = (2 ^ 64 - 1) div 12"

definition reserve_throws :: "int \<Rightarrow> bool" where
  "reserve_throws n \<longleftrightarrow> vector_max_size < size_t_of_int n"

text \<open>A call throws (\<open>Inl\<close>) or returns (\<open>Inr\<close>); it has no result (\<open>None\<close>) when
  the random source cannot serve its draws.\<close>

definition findPlanesRansac ::
  "depth_map \<Rightarrow> int \<Rightarrow> int \<Rightarrow> real \<Rightarrow> real \<Rightarrow> real \<Rightarrow> real \<Rightarrow> real \<Rightarrow> int \<Rightarrow> int \<Rightarrow> rng
     \<Rightarrow> (error + PlaneResult list) option" where
  "findPlanesRansac depthMap width height fx fy cx cy distanceThreshold minInliers
       maxIterations rng =
     (if reserve_throws (c_div (width * height) 4) then Some (Inl length_error)
      else
        let pointCloud = app_point_cloud depthMap width height fx fy cx cy
        in if int (length pointCloud) < size_t_of_int minInliers \<or> length pointCloud < 3
           then Some (Inr [])
           else
             (case ransac_loop (app_iteration pointCloud distanceThreshold) maxIterations 0 rng
                     (Plane 0 0 0 0, - 1) of
                None \<Rightarrow> None
              | Some ((bestPlane, maxInliersFound), rng') \<Rightarrow>
                  if maxInliersFound \<ge> minInliers
                  then Some (Inr [PlaneResult (pl_a bestPlane) (pl_b bestPlane) (pl_c bestPlane)
                                    (pl_d bestPlane) maxInliersFound])
                  else Some (Inr [])))"

text \<open>The caller's output array, read and written by index. \<open>detect_walls_ransac\<close>
  returns the number of planes written, and the array as it leaves it.\<close>

type_synonym out_buffer = "nat \<Rightarrow> RansacPlaneResult"

definition detect_walls_ransac ::
  "depth_map \<Rightarrow> int \<Rightarrow> int \<Rightarrow> real \<Rightarrow> real \<Rightarrow> real \<Rightarrow> real \<Rightarrow> real \<Rightarrow> int \<Rightarrow> int
     \<Rightarrow> out_buffer \<Rightarrow> int \<Rightarrow> rng \<Rightarrow> (error + int \<times> out_buffer) option" where
  "detect_walls_ransac depth_map_data width height fx fy cx cy distance_threshold min_inliers
       max_iterations out_planes_buffer max_planes rng =
     (if reserve_throws (c_div (width * height) 4) then Some (Inl length_error)
      else
        let point_cloud = wall_point_cloud depth_map_data width height fx fy cx cy
        in if length point_cloud < 3 \<or> int (length point_cloud) < size_t_of_int min_inliers
           then Some (Inr (0, out_planes_buffer))
           else
             (case ransac_loop (wall_iteration point_cloud distance_threshold) max_iterations 0
                     rng (Plane 0 0 0 0, - 1) of
                None \<Rightarrow> None
              | Some ((best_plane, best_inlier_count), rng') \<Rightarrow>
                  if best_inlier_count \<ge> min_inliers \<and> max_planes \<ge> 1
                  then Some (Inr (1, out_planes_buffer
                                (0 := RansacPlaneResult (pl_a best_plane) (pl_b best_plane)
                                        (pl_c best_plane) (pl_d best_plane) best_inlier_count)))
                  else Some (Inr (0, out_planes_buffer))))"

section \<open>Single-precision values with infinities and NaN\<close>

text \<open>
  The embedding above reads a \<open>float\<close> as a real number, so it has no cell, coordinate or
  normal that is NaN or infinite. For the properties that turn on such values the same
  source lines are embedded once more, over the values of \<open>fl\<close>: a finite number, plus
  or minus infinity, or NaN. An operation follows IEEE-754 on the special values, and a
  finite result above \<open>FLT_MAX\<close> in magnitude overflows to an infinity. Three things
  stay outside: a finite result is not rounded to 24 bits, a result too small for the
  format does not underflow, and zero has no sign (a zero divisor counts as \<open>+0\<close>).
  A function of this second embedding carries the name of its source function with the
  prefix \<open>fl_\<close>; the sampling of indices, the reserve request and the conversion to
  \<open>size_t\<close> involve no \<open>float\<close> and are shared.
\<close>

datatype fl = Fin real | PInf | NInf | NaN

text \<open>\<open>FLT_MAX\<close>, and the value an operation on finite operands delivers for the exact
  result \<open>r\<close>.\<close>

definition flt_max :: real where
  "flt_max = 2 ^ 128 - 2 ^ 104"

definition deliver :: "real \<Rightarrow> fl" where
  "deliver r = (if flt_max < r then PInf else if r < - flt_max then NInf else Fin r)"

instantiation fl :: "{uminus, plus, minus, times, inverse, abs, ord}"
begin

fun uminus_fl :: "fl \<Rightarrow> fl" where
  "uminus_fl (Fin a) = Fin (- a)"
| "uminus_fl PInf = NInf"
| "uminus_fl NInf = PInf"
| "uminus_fl NaN = NaN"

fun plus_fl :: "fl \<Rightarrow> fl \<Rightarrow> fl" where
  "plus_fl (Fin a) (Fin b) = deliver (a + b)"
| "plus_fl NaN y = NaN"
| "plus_fl x NaN = NaN"
| "plus_fl PInf NInf = NaN"
| "plus_fl NInf PInf = NaN"
| "plus_fl PInf y = PInf"
| "plus_fl x PInf = PInf"
| "plus_fl NInf y = NInf"
| "plus_fl x NInf = NInf"

definition minus_fl :: "fl \<Rightarrow> fl \<Rightarrow> fl" where
  "minus_fl x y = x + - (y::fl)"

fun times_fl :: "fl \<Rightarrow> fl \<Rightarrow> fl" where
  "times_fl (Fin a) (Fin b) = deliver (a * b)"
| "times_fl NaN y = NaN"
| "times_fl x NaN = NaN"
| "times_fl PInf (Fin b) = (if b = 0 then NaN else if 0 < b then PInf else NInf)"
| "times_fl NInf (Fin b) = (if b = 0 then NaN else if 0 < b then NInf else PInf)"
| "times_fl (Fin a) PInf = (if a = 0 then NaN else if 0 < a then PInf else NInf)"
| "times_fl (Fin a) NInf = (if a = 0 then NaN else if 0 < a then NInf else PInf)"
| "times_fl PInf PInf = PInf"
| "times_fl NInf NInf = PInf"
| "times_fl PInf NInf = NInf"
| "times_fl NInf PInf = NInf"

fun divide_fl :: "fl \<Rightarrow> fl \<Rightarrow> fl" where
  "divide_fl (Fin a) (Fin b) =
     (if b = 0 then (if a = 0 then NaN else if 0 < a then PInf else NInf)
      else deliver (a / b))"
| "divide_fl NaN y = NaN"
| "divide_fl x NaN = NaN"
| "divide_fl (Fin a) PInf = Fin 0"
| "divide_fl (Fin a) NInf = Fin 0"
| "divide_fl PInf (Fin b) = (if 0 \<le> b then PInf else NInf)"
| "divide_fl NInf (Fin b) = (if 0 \<le> b then NInf else PInf)"
| "divide_fl PInf y = NaN"
| "divide_fl NInf y = NaN"

fun inverse_fl :: "fl \<Rightarrow> fl" where
  "inverse_fl (Fin a) = (if a = 0 then PInf else deliver (1 / a))"
| "inverse_fl PInf = Fin 0"
| "inverse_fl NInf = Fin 0"
| "inverse_fl NaN = NaN"

fun abs_fl :: "fl \<Rightarrow> fl" where
  "abs_fl (Fin a) = Fin \<bar>a\<bar>"
| "abs_fl PInf = PInf"
| "abs_fl NInf = PInf"
| "abs_fl NaN = NaN"

fun less_fl :: "fl \<Rightarrow> fl \<Rightarrow> bool" where
  "less_fl (Fin a) (Fin b) \<longleftrightarrow> a < b"
| "less_fl NaN y \<longleftrightarrow> False"
| "less_fl x NaN \<longleftrightarrow> False"
| "less_fl x NInf \<longleftrightarrow> False"
| "less_fl PInf y \<longleftrightarrow> False"
| "less_fl NInf y \<longleftrightarrow> True"
| "less_fl x PInf \<longleftrightarrow> True"

fun less_eq_fl :: "fl \<Rightarrow> fl \<Rightarrow> bool" where
  "less_eq_fl (Fin a) (Fin b) \<longleftrightarrow> a \<le> b"
| "less_eq_fl NaN y \<longleftrightarrow> False"
| "less_eq_fl x NaN \<longleftrightarrow> False"
| "less_eq_fl NInf y \<longleftrightarrow> True"
| "less_eq_fl x PInf \<longleftrightarrow> True"
| "less_eq_fl x NInf \<longleftrightarrow> False"
| "less_eq_fl PInf y \<longleftrightarrow> False"

instance ..

end

text \<open>\<open>std::sqrt\<close>, \<open>std::isnan\<close> and the conversion of an \<open>int\<close>.\<close>

fun fl_sqrt :: "fl \<Rightarrow> fl" where
  "fl_sqrt (Fin a) = (if a < 0 then NaN else Fin (sqrt a))"
| "fl_sqrt PInf = PInf"
| "fl_sqrt NInf = NaN"
| "fl_sqrt NaN = NaN"

fun fl_isnan :: "fl \<Rightarrow> bool" where
  "fl_isnan NaN \<longleftrightarrow> True"
| "fl_isnan x \<longleftrightarrow> False"

definition fl_of_int :: "int \<Rightarrow> fl" where
  "fl_of_int i = Fin (of_int i)"

type_synonym fl_depth_map = "int \<Rightarrow> fl"

datatype FPoint3D = FPoint3D (fp_x: fl) (fp_y: fl) (fp_z: fl)

datatype FPlane = FPlane (fpl_a: fl) (fpl_b: fl) (fpl_c: fl) (fpl_d: fl)

datatype FPlaneResult =
  FPlaneResult (fres_A: fl) (fres_B: fl) (fres_C: fl) (fres_D: fl) (fnumInliers: int)

datatype FRansacPlaneResult =
  FRansacPlaneResult (fout_a: fl) (fout_b: fl) (fout_c: fl) (fout_d: fl) (finlier_count: int)

subsection \<open>Point-cloud construction\<close>

text \<open>The body of the inner loop of \<open>findPlanesRansac\<close> (lines 121 to 138) and of
  \<open>detect_walls_ransac\<close> (lines 47 to 69).\<close>

definition fl_app_cell ::
  "fl_depth_map \<Rightarrow> int \<Rightarrow> fl \<Rightarrow> fl \<Rightarrow> fl \<Rightarrow> fl \<Rightarrow> int \<Rightarrow> int
     \<Rightarrow> FPoint3D list \<Rightarrow> FPoint3D list" where
  "fl_app_cell depthMap width fx fy cx cy v u pointCloud =
     (let index = v * width + u;
          inverseDepth = depthMap index
      in if inverseDepth < Fin lit_1e_5 then pointCloud
         else
           let z = Fin 1 / inverseDepth
           in if z > Fin lit_1000f then pointCloud
              else
                let x = (fl_of_int u - cx) * z / fx;
                    y = (fl_of_int v - cy) * z / fy
                in pointCloud @ [FPoint3D x y z])"

definition fl_wall_cell ::
  "fl_depth_map \<Rightarrow> int \<Rightarrow> fl \<Rightarrow> fl \<Rightarrow> fl \<Rightarrow> fl \<Rightarrow> int \<Rightarrow> int
     \<Rightarrow> FPoint3D list \<Rightarrow> FPoint3D list" where
  "fl_wall_cell depth_map_data width fx fy cx cy v u point_cloud =
     (let inv_d = depth_map_data (v * width + u)
      in if inv_d > Fin lit_0_01f
         then
           let Z = Fin 1 / inv_d;
               X = (fl_of_int u - cx) * Z / fx;
               Y = (fl_of_int v - cy) * Z / fy;
               Y = - Y
           in point_cloud @ [FPoint3D X Y Z]
         else point_cloud)"

text \<open>The two nested \<open>for\<close> loops over \<open>v\<close> and \<open>u\<close> are the same in both files; the
  body is a parameter.\<close>

function fl_cols ::
  "(int \<Rightarrow> int \<Rightarrow> FPoint3D list \<Rightarrow> FPoint3D list) \<Rightarrow> int \<Rightarrow> int \<Rightarrow> int
     \<Rightarrow> FPoint3D list \<Rightarrow> FPoint3D list" where
  "fl_cols body width v u pointCloud =
     (if u < width then fl_cols body width v (u + 1) (body v u pointCloud) else pointCloud)"
  by pat_completeness auto
termination
  by (relation "measure (\<lambda>(body, width, v, u, pointCloud). nat (width - u))") auto

declare fl_cols.simps [simp del]

function fl_rows ::
  "(int \<Rightarrow> int \<Rightarrow> FPoint3D list \<Rightarrow> FPoint3D list) \<Rightarrow> int \<Rightarrow> int \<Rightarrow> int
     \<Rightarrow> FPoint3D list \<Rightarrow> FPoint3D list" where
  "fl_rows body width height v pointCloud =
     (if v < height
      then fl_rows body width height (v + 1) (fl_cols body width v 0 pointCloud)
      else pointCloud)"
  by pat_completeness auto
termination
  by (relation "measure (\<lambda>(body, width, height, v, pointCloud). nat (height - v))") auto

declare fl_rows.simps [simp del]

definition fl_app_point_cloud ::
  "fl_depth_map \<Rightarrow> int \<Rightarrow> int \<Rightarrow> fl \<Rightarrow> fl \<Rightarrow> fl \<Rightarrow> fl \<Rightarrow> FPoint3D list" where
  "fl_app_point_cloud depthMap width height fx fy cx cy =
     fl_rows (fl_app_cell depthMap width fx fy cx cy) width height 0 []"

definition fl_wall_point_cloud ::
  "fl_depth_map \<Rightarrow> int \<Rightarrow> int \<Rightarrow> fl \<Rightarrow> fl \<Rightarrow> fl \<Rightarrow> fl \<Rightarrow> FPoint3D list" where
  "fl_wall_point_cloud depth_map_data width height fx fy cx cy =
     fl_rows (fl_wall_cell depth_map_data width fx fy cx cy) width height 0 []"

subsection \<open>Planes, scoring and one iteration\<close>

text \<open>\<open>calculatePlane\<close> (app ransac.cpp, lines 33 to 64) with its NaN plane, and
  \<open>pointPlaneDistance\<close> (lines 76 to 78).\<close>

definition fl_calculatePlane :: "FPoint3D \<Rightarrow> FPoint3D \<Rightarrow> FPoint3D \<Rightarrow> FPlane" where
  "fl_calculatePlane p1 p2 p3 =
     (let v1 = FPoint3D (fp_x p2 - fp_x p1) (fp_y p2 - fp_y p1) (fp_z p2 - fp_z p1);
          v2 = FPoint3D (fp_x p3 - fp_x p1) (fp_y p3 - fp_y p1) (fp_z p3 - fp_z p1);
          a = fp_y v1 * fp_z v2 - fp_z v1 * fp_y v2;
          b = fp_z v1 * fp_x v2 - fp_x v1 * fp_z v2;
          c = fp_x v1 * fp_y v2 - fp_y v1 * fp_x v2;
          len = fl_sqrt (a * a + b * b + c * c)
      in if len > Fin (float_epsilon * 100)
         then
           let a = a / len;
               b = b / len;
               c = c / len;
               d = - (a * fp_x p1 + b * fp_y p1 + c * fp_z p1)
           in FPlane a b c d
         else FPlane NaN NaN NaN NaN)"

definition fl_pointPlaneDistance :: "FPoint3D \<Rightarrow> FPlane \<Rightarrow> fl" where
  "fl_pointPlaneDistance point plane =
     \<bar>fpl_a plane * fp_x point + fpl_b plane * fp_y point + fpl_c plane * fp_z point
       + fpl_d plane\<bar>"

fun fl_app_count_inliers :: "FPlane \<Rightarrow> fl \<Rightarrow> FPoint3D list \<Rightarrow> int \<Rightarrow> int" where
  "fl_app_count_inliers currentPlane distanceThreshold [] currentInliers = currentInliers"
| "fl_app_count_inliers currentPlane distanceThreshold (point # rest) currentInliers =
     fl_app_count_inliers currentPlane distanceThreshold rest
       (if fl_pointPlaneDistance point currentPlane < distanceThreshold
        then currentInliers + 1 else currentInliers)"

fun fl_wall_count_inliers :: "fl \<Rightarrow> fl \<Rightarrow> fl \<Rightarrow> fl \<Rightarrow> fl \<Rightarrow> FPoint3D list \<Rightarrow> int \<Rightarrow> int" where
  "fl_wall_count_inliers A B C D distance_threshold [] current_inlier_count =
     current_inlier_count"
| "fl_wall_count_inliers A B C D distance_threshold (pt # rest) current_inlier_count =
     fl_wall_count_inliers A B C D distance_threshold rest
       (let distance = \<bar>A * fp_x pt + B * fp_y pt + C * fp_z pt + D\<bar>
        in if distance < distance_threshold
           then current_inlier_count + 1 else current_inlier_count)"

datatype fl_outcome = FCollision | FDegenerate | FScored FPlane int

definition fl_update_best :: "FPlane \<times> int \<Rightarrow> fl_outcome \<Rightarrow> FPlane \<times> int" where
  "fl_update_best best oc =
     (case oc of
        FScored currentPlane currentInliers \<Rightarrow>
          if currentInliers > snd best then (currentPlane, currentInliers) else best
      | _ \<Rightarrow> best)"

text \<open>\<open>findPlanesRansac\<close>, lines 160 to 185: the test of line 174 looks at the first
  component of the plane only.\<close>

definition fl_app_candidate :: "FPoint3D list \<Rightarrow> fl \<Rightarrow> nat \<times> nat \<times> nat \<Rightarrow> fl_outcome" where
  "fl_app_candidate pointCloud distanceThreshold idx =
     (case idx of (idx1, idx2, idx3) \<Rightarrow>
        if idx1 = idx2 \<or> idx1 = idx3 \<or> idx2 = idx3 then FCollision
        else
          let currentPlane =
                fl_calculatePlane (pointCloud ! idx1) (pointCloud ! idx2) (pointCloud ! idx3)
          in if fl_isnan (fpl_a currentPlane) then FDegenerate
             else FScored currentPlane
                    (fl_app_count_inliers currentPlane distanceThreshold pointCloud 0))"

definition fl_app_iteration ::
  "FPoint3D list \<Rightarrow> fl \<Rightarrow> rng \<Rightarrow> (fl_outcome \<times> rng) option" where
  "fl_app_iteration pointCloud distanceThreshold rng =
     (case draw_triple (length pointCloud) rng of
        None \<Rightarrow> None
      | Some (idx, rng') \<Rightarrow> Some (fl_app_candidate pointCloud distanceThreshold idx, rng'))"

text \<open>\<open>detect_walls_ransac\<close>, lines 101 to 144.\<close>

definition fl_wall_candidate :: "FPoint3D list \<Rightarrow> fl \<Rightarrow> nat \<times> nat \<times> nat \<Rightarrow> fl_outcome" where
  "fl_wall_candidate point_cloud distance_threshold idx =
     (case idx of (idx1, idx2, idx3) \<Rightarrow>
        let p1 = point_cloud ! idx1;
            p2 = point_cloud ! idx2;
            p3 = point_cloud ! idx3;
            v1x = fp_x p2 - fp_x p1;
            v1y = fp_y p2 - fp_y p1;
            v1z = fp_z p2 - fp_z p1;
            v2x = fp_x p3 - fp_x p1;
            v2y = fp_y p3 - fp_y p1;
            v2z = fp_z p3 - fp_z p1;
            A = v1y * v2z - v1z * v2y;
            B = v1z * v2x - v1x * v2z;
            C = v1x * v2y - v1y * v2x;
            magnitude = fl_sqrt (A * A + B * B + C * C)
        in if magnitude < Fin lit_1e_6 then FDegenerate
           else
             let A = A / magnitude;
                 B = B / magnitude;
                 C = C / magnitude;
                 D = - (A * fp_x p1 + B * fp_y p1 + C * fp_z p1)
             in FScored (FPlane A B C D)
                  (fl_wall_count_inliers A B C D distance_threshold point_cloud 0))"

definition fl_wall_iteration ::
  "FPoint3D list \<Rightarrow> fl \<Rightarrow> rng \<Rightarrow> (fl_outcome \<times> rng) option" where
  "fl_wall_iteration point_cloud distance_threshold rng =
     (case wall_sample (length point_cloud) rng of
        None \<Rightarrow> None
      | Some (idx, rng') \<Rightarrow> Some (fl_wall_candidate point_cloud distance_threshold idx, rng'))"

subsection \<open>The sampling loop and the two estimators\<close>

function fl_ransac_loop ::
  "(rng \<Rightarrow> (fl_outcome \<times> rng) option) \<Rightarrow> int \<Rightarrow> int \<Rightarrow> rng \<Rightarrow> FPlane \<times> int
     \<Rightarrow> ((FPlane \<times> int) \<times> rng) option" where
  "fl_ransac_loop body maxIterations iter rng best =
     (if iter < maxIterations
      then (case body rng of
              None \<Rightarrow> None
            | Some (oc, rng') \<Rightarrow>
                fl_ransac_loop body maxIterations (iter + 1) rng' (fl_update_best best oc))
      else Some (best, rng))"
  by pat_completeness auto
termination
  by (relation "measure (\<lambda>(body, maxIterations, iter, rng, best). nat (maxIterations - iter))")
     auto

declare fl_ransac_loop.simps [simp del]

definition fl_findPlanesRansac ::
  "fl_depth_map \<Rightarrow> int \<Rightarrow> int \<Rightarrow> fl \<Rightarrow> fl \<Rightarrow> fl \<Rightarrow> fl \<Rightarrow> fl \<Rightarrow> int \<Rightarrow> int \<Rightarrow> rng
     \<Rightarrow> (error + FPlaneResult list) option" where
  "fl_findPlanesRansac depthMap width height fx fy cx cy distanceThreshold minInliers
       maxIterations rng =
     (if reserve_throws (c_div (width * height) 4) then Some (Inl length_error)
      else
        let pointCloud = fl_app_point_cloud depthMap width height fx fy cx cy
        in if int (length pointCloud) < size_t_of_int minInliers \<or> length pointCloud < 3
           then Some (Inr [])
           else
             (case fl_ransac_loop (fl_app_iteration pointCloud distanceThreshold) maxIterations
                     0 rng (FPlane (Fin 0) (Fin 0) (Fin 0) (Fin 0), - 1) of
                None \<Rightarrow> None
              | Some ((bestPlane, maxInliersFound), rng') \<Rightarrow>
                  if maxInliersFound \<ge> minInliers
                  then Some (Inr [FPlaneResult (fpl_a bestPlane) (fpl_b bestPlane)
                                    (fpl_c bestPlane) (fpl_d bestPlane) maxInliersFound])
                  else Some (Inr [])))"

type_synonym fl_out_buffer = "nat \<Rightarrow> FRansacPlaneResult"

definition fl_detect_walls_ransac ::
  "fl_depth_map \<Rightarrow> int \<Rightarrow> int \<Rightarrow> fl \<Rightarrow> fl \<Rightarrow> fl \<Rightarrow> fl \<Rightarrow> fl \<Rightarrow> int \<Rightarrow> int
     \<Rightarrow> fl_out_buffer \<Rightarrow> int \<Rightarrow> rng \<Rightarrow> (error + int \<times> fl_out_buffer) option" where
  "fl_detect_walls_ransac depth_map_data width height fx fy cx cy distance_threshold
       min_inliers max_iterations out_planes_buffer max_planes rng =
     (if reserve_throws (c_div (width * height) 4) then Some (Inl length_error)
      else
        let point_cloud = fl_wall_point_cloud depth_map_data width height fx fy cx cy
        in if length point_cloud < 3 \<or> int (length point_cloud) < size_t_of_int min_inliers
           then Some (Inr (0, out_planes_buffer))
           else
             (case fl_ransac_loop (fl_wall_iteration point_cloud distance_threshold)
                     max_iterations 0 rng (FPlane (Fin 0) (Fin 0) (Fin 0) (Fin 0), - 1) of
                None \<Rightarrow> None
              | Some ((best_plane, best_inlier_count), rng') \<Rightarrow>
                  if best_inlier_count \<ge> min_inliers \<and> max_planes \<ge> 1
                  then Some (Inr (1, out_planes_buffer
                                (0 := FRansacPlaneResult (fpl_a best_plane) (fpl_b best_plane)
                                        (fpl_c best_plane) (fpl_d best_plane)
                                        best_inlier_count)))
                  else Some (Inr (0, out_planes_buffer))))"

section \<open>The cloud as a list over the grid\<close>

lemma app_cell_append:
  "app_cell depthMap width fx fy cx cy v u pointCloud =
     pointCloud @ app_cell depthMap width fx fy cx cy v u []"
  by (simp add: app_cell_def Let_def)

lemma app_cols_eq:
  "app_cols depthMap width fx fy cx cy v u pointCloud =
     pointCloud @
     concat (map (\<lambda>(v, u). app_cell depthMap width fx fy cx cy v u []) (row_cells width v u))"
proof (induction depthMap width fx fy cx cy v u pointCloud rule: app_cols.induct)
  case (1 depthMap width fx fy cx cy v u pointCloud)
  show ?case
  proof (cases "u < width")
    case True
    then have cells: "row_cells width v u = (v, u) # row_cells width v (u + 1)"
      by (simp add: row_cells_def upto_rec1)
    from True 1 show ?thesis
      by (subst app_cols.simps)
         (simp add: cells app_cell_append [of _ _ _ _ _ _ _ _ pointCloud])
  next
    case False
    then show ?thesis
      by (subst app_cols.simps) (simp add: row_cells_def)
  qed
qed

lemma app_rows_eq:
  "app_rows depthMap width height fx fy cx cy v pointCloud =
     pointCloud @
     concat (map (\<lambda>(v, u). app_cell depthMap width fx fy cx cy v u [])
               (concat (map (\<lambda>v. row_cells width v 0) [v..height - 1])))"
proof (induction depthMap width height fx fy cx cy v pointCloud rule: app_rows.induct)
  case (1 depthMap width height fx fy cx cy v pointCloud)
  show ?case
  proof (cases "v < height")
    case True
    then have rows: "[v..height - 1] = v # [v + 1..height - 1]"
      by (simp add: upto_rec1)
    from True 1 show ?thesis
      by (subst app_rows.simps) (simp add: rows app_cols_eq)
  next
    case False
    then show ?thesis
      by (subst app_rows.simps) simp
  qed
qed

lemma app_point_cloud_eq:
  "app_point_cloud depthMap width height fx fy cx cy =
     concat (map (\<lambda>(v, u). app_cell depthMap width fx fy cx cy v u [])
               (grid_cells width height))"
  by (simp add: app_point_cloud_def app_rows_eq grid_cells_def)

lemma wall_cell_append:
  "wall_cell depth_map_data width fx fy cx cy v u point_cloud =
     point_cloud @ wall_cell depth_map_data width fx fy cx cy v u []"
  by (simp add: wall_cell_def Let_def)

lemma wall_cols_eq:
  "wall_cols depth_map_data width fx fy cx cy v u point_cloud =
     point_cloud @
     concat (map (\<lambda>(v, u). wall_cell depth_map_data width fx fy cx cy v u [])
               (row_cells width v u))"
proof (induction depth_map_data width fx fy cx cy v u point_cloud rule: wall_cols.induct)
  case (1 depth_map_data width fx fy cx cy v u point_cloud)
  show ?case
  proof (cases "u < width")
    case True
    then have cells: "row_cells width v u = (v, u) # row_cells width v (u + 1)"
      by (simp add: row_cells_def upto_rec1)
    from True 1 show ?thesis
      by (subst wall_cols.simps)
         (simp add: cells wall_cell_append [of _ _ _ _ _ _ _ _ point_cloud])
  next
    case False
    then show ?thesis
      by (subst wall_cols.simps) (simp add: row_cells_def)
  qed
qed

lemma wall_rows_eq:
  "wall_rows depth_map_data width height fx fy cx cy v point_cloud =
     point_cloud @
     concat (map (\<lambda>(v, u). wall_cell depth_map_data width fx fy cx cy v u [])
               (concat (map (\<lambda>v. row_cells width v 0) [v..height - 1])))"
proof (induction depth_map_data width height fx fy cx cy v point_cloud rule: wall_rows.induct)
  case (1 depth_map_data width height fx fy cx cy v point_cloud)
  show ?case
  proof (cases "v < height")
    case True
    then have rows: "[v..height - 1] = v # [v + 1..height - 1]"
      by (simp add: upto_rec1)
    from True 1 show ?thesis
      by (subst wall_rows.simps) (simp add: rows wall_cols_eq)
  next
    case False
    then show ?thesis
      by (subst wall_rows.simps) simp
  qed
qed

lemma wall_point_cloud_eq:
  "wall_point_cloud depth_map_data width height fx fy cx cy =
     concat (map (\<lambda>(v, u). wall_cell depth_map_data width fx fy cx cy v u [])
               (grid_cells width height))"
  by (simp add: wall_point_cloud_def wall_rows_eq grid_cells_def)

lemma concat_map_filter:
  "concat (map (\<lambda>x. if P x then [f x] else []) xs) = map f (filter P xs)"
  by (induction xs) simp_all

lemma lit_1e_5_bounds: "0 < lit_1e_5" "lit_1e_5 < 1 / 1000"
  by (simp_all add: lit_1e_5_def)

lemma lit_0_01f_bounds: "0 < lit_0_01f" "1 / 1000 < lit_0_01f"
  by (simp_all add: lit_0_01f_def)

lemma grid_cells_2_2: "grid_cells 2 2 = [(0, 0), (0, 1), (1, 0), (1, 1)]"
  by (simp add: grid_cells_def row_cells_def upto_rec1)

lemma grid_cells_1_1: "grid_cells 1 1 = [(0, 0)]"
  by (simp add: grid_cells_def row_cells_def upto_rec1)

lemma grid_cells_empty: "width \<le> 0 \<or> height \<le> 0 \<Longrightarrow> grid_cells width height = []"
  by (auto simp: grid_cells_def row_cells_def)

section \<open>Conversions and the reserve request\<close>

lemma size_t_of_int_id: "0 \<le> i \<Longrightarrow> i < 2 ^ 31 \<Longrightarrow> size_t_of_int i = i"
  by (simp add: size_t_of_int_def)

lemma c_div_4_nonneg: "0 \<le> n \<Longrightarrow> c_div n 4 = n div 4"
  by (simp add: c_div_def)

lemma c_div_4_neg: "n < 0 \<Longrightarrow> c_div n 4 = - ((- n) div 4)"
  by (simp add: c_div_def)

lemma reserve_ok: "0 \<le> n \<Longrightarrow> n < 2 ^ 31 \<Longrightarrow> \<not> reserve_throws (c_div n 4)"
  by (simp add: c_div_4_nonneg reserve_throws_def size_t_of_int_def vector_max_size_def)

lemma reserve_ok_small_negative: "- 4 < n \<Longrightarrow> n < 0 \<Longrightarrow> \<not> reserve_throws (c_div n 4)"
  by (simp add: c_div_4_neg reserve_throws_def size_t_of_int_def vector_max_size_def)

lemma reserve_throws_negative:
  assumes "n \<le> - 4" and "- (2 ^ 31) \<le> n"
  shows "reserve_throws (c_div n 4)"
proof -
  let ?q = "(- n) div 4"
  from assms have q: "1 \<le> ?q" "?q \<le> 2 ^ 29" by simp_all
  from assms have "c_div n 4 = - ?q" by (simp add: c_div_4_neg)
  moreover from q have "(- ?q) mod 2 ^ 64 = 2 ^ 64 - ?q"
    by (simp add: zmod_zminus1_eq_if)
  ultimately show ?thesis
    using q by (simp add: reserve_throws_def size_t_of_int_def vector_max_size_def)
qed

lemma reserve_2_2: "\<not> reserve_throws (c_div 4 4)"
  by (rule reserve_ok) simp_all

section \<open>Back-projection\<close>

text \<open>
  C1 (amended). With non-zero focal lengths, the cloud of either estimator holds, for the
  cells that pass its validity test and in grid order, the point with
  \<open>Z = 1 / inverseDepth\<close>, \<open>X = (u - cx) * Z / fx\<close> and a Y of magnitude
  \<open>(v - cy) * Z / fy\<close>. \<open>detect_walls_ransac\<close> stores the negated Y;
  \<open>findPlanesRansac\<close> stores Y as computed, with no change of sign.
\<close>

theorem back_projection_coordinates:
  assumes "fx \<noteq> 0" and "fy \<noteq> 0"
  shows "app_point_cloud depthMap width height fx fy cx cy =
           map (\<lambda>(v, u).
                  let Z = 1 / depthMap (v * width + u)
                  in Point3D ((of_int u - cx) * Z / fx) ((of_int v - cy) * Z / fy) Z)
             (filter (\<lambda>(v, u). lit_1e_5 \<le> depthMap (v * width + u) \<and>
                                 1 / depthMap (v * width + u) \<le> lit_1000f)
                (grid_cells width height))
         \<and>
         wall_point_cloud depthMap width height fx fy cx cy =
           map (\<lambda>(v, u).
                  let Z = 1 / depthMap (v * width + u)
                  in Point3D ((of_int u - cx) * Z / fx) (- ((of_int v - cy) * Z / fy)) Z)
             (filter (\<lambda>(v, u). lit_0_01f < depthMap (v * width + u))
                (grid_cells width height))"
proof -
  have app: "(\<lambda>(v, u). app_cell depthMap width fx fy cx cy v u []) =
      (\<lambda>c. if (case c of (v, u) \<Rightarrow> lit_1e_5 \<le> depthMap (v * width + u) \<and>
                                 1 / depthMap (v * width + u) \<le> lit_1000f)
           then [case c of (v, u) \<Rightarrow>
                  let Z = 1 / depthMap (v * width + u)
                  in Point3D ((of_int u - cx) * Z / fx) ((of_int v - cy) * Z / fy) Z]
           else [])"
    by (auto simp: fun_eq_iff app_cell_def Let_def)
  have wall: "(\<lambda>(v, u). wall_cell depthMap width fx fy cx cy v u []) =
      (\<lambda>c. if (case c of (v, u) \<Rightarrow> lit_0_01f < depthMap (v * width + u))
           then [case c of (v, u) \<Rightarrow>
                  let Z = 1 / depthMap (v * width + u)
                  in Point3D ((of_int u - cx) * Z / fx) (- ((of_int v - cy) * Z / fy)) Z]
           else [])"
    by (auto simp: fun_eq_iff wall_cell_def Let_def)
  show ?thesis
    by (simp only: app_point_cloud_eq wall_point_cloud_eq app wall concat_map_filter)
qed

theorem back_projection_coordinates_witness:
  "(1::real) \<noteq> 0 \<and>
   app_point_cloud (\<lambda>i. 1 / 2) 1 1 1 1 0 1 = [Point3D 0 (- 2) 2] \<and>
   wall_point_cloud (\<lambda>i. 1 / 2) 1 1 1 1 0 1 = [Point3D 0 2 2]"
  using back_projection_coordinates [of 1 1 "\<lambda>i. 1 / 2" 1 1 0 1]
  by (simp add: grid_cells_1_1 lit_1e_5_def lit_1000f_def lit_0_01f_def)

text \<open>
  C1 as stated fails for \<open>findPlanesRansac\<close>: on a grid of one cell with inverse depth
  \<open>1/2\<close>, \<open>cy = 1\<close> and \<open>fy = 1\<close> the flipped value \<open>- ((v - cy) * Z / fy)\<close> is
  \<open>2\<close>, and the stored Y is \<open>- 2\<close>.
\<close>

theorem findPlanesRansac_keeps_sign_of_Y:
  "map p_y (app_point_cloud (\<lambda>i. 1 / 2) 1 1 1 1 0 1) = [- 2] \<and>
   - ((of_int 0 - 1) * (1 / (1 / 2)) / 1) = (2::real)"
  by (simp add: app_point_cloud_eq grid_cells_1_1 app_cell_def lit_1e_5_def lit_1000f_def)

section \<open>Which cells give a point\<close>

lemma fl_cols_eq:
  assumes "\<And>v u ps. body v u ps = ps @ body v u []"
  shows "fl_cols body width v u pointCloud =
           pointCloud @ concat (map (\<lambda>(v, u). body v u []) (row_cells width v u))"
proof (induction "nat (width - u)" arbitrary: u pointCloud)
  case 0
  then have "\<not> u < width" by simp
  then show ?case
    by (subst fl_cols.simps) (simp add: row_cells_def)
next
  case (Suc k)
  then have lt: "u < width" and k: "k = nat (width - (u + 1))"
    by linarith+
  from lt have cells: "row_cells width v u = (v, u) # row_cells width v (u + 1)"
    by (simp add: row_cells_def upto_rec1)
  from Suc.hyps (1) [OF k] lt show ?case
    by (subst fl_cols.simps) (simp add: cells assms [of v u pointCloud])
qed

lemma fl_rows_eq:
  assumes "\<And>v u ps. body v u ps = ps @ body v u []"
  shows "fl_rows body width height v pointCloud =
           pointCloud @
           concat (map (\<lambda>(v, u). body v u [])
                     (concat (map (\<lambda>v. row_cells width v 0) [v..height - 1])))"
proof (induction "nat (height - v)" arbitrary: v pointCloud)
  case 0
  then have "\<not> v < height" by simp
  then show ?case
    by (subst fl_rows.simps) simp
next
  case (Suc k)
  then have lt: "v < height" and k: "k = nat (height - (v + 1))"
    by linarith+
  from lt have rows: "[v..height - 1] = v # [v + 1..height - 1]"
    by (simp add: upto_rec1)
  from Suc.hyps (1) [OF k] lt show ?case
    by (subst fl_rows.simps) (simp add: rows fl_cols_eq [OF assms])
qed

lemma fl_app_cell_append:
  "fl_app_cell depthMap width fx fy cx cy v u ps =
     ps @ fl_app_cell depthMap width fx fy cx cy v u []"
  by (simp add: fl_app_cell_def Let_def)

lemma fl_wall_cell_append:
  "fl_wall_cell depthMap width fx fy cx cy v u ps =
     ps @ fl_wall_cell depthMap width fx fy cx cy v u []"
  by (simp add: fl_wall_cell_def Let_def)

lemma fl_app_point_cloud_eq:
  "fl_app_point_cloud depthMap width height fx fy cx cy =
     concat (map (\<lambda>(v, u). fl_app_cell depthMap width fx fy cx cy v u [])
               (grid_cells width height))"
  using fl_rows_eq [of "fl_app_cell depthMap width fx fy cx cy" width height 0 "[]",
                    OF fl_app_cell_append]
  by (simp add: fl_app_point_cloud_def grid_cells_def)

lemma fl_wall_point_cloud_eq:
  "fl_wall_point_cloud depthMap width height fx fy cx cy =
     concat (map (\<lambda>(v, u). fl_wall_cell depthMap width fx fy cx cy v u [])
               (grid_cells width height))"
  using fl_rows_eq [of "fl_wall_cell depthMap width fx fy cx cy" width height 0 "[]",
                    OF fl_wall_cell_append]
  by (simp add: fl_wall_point_cloud_def grid_cells_def)

text \<open>The two tests of \<open>findPlanesRansac\<close> on a value \<open>d\<close> of the depth map give the
  cell up exactly when \<open>d \<le> 1e-5\<close> or \<open>1 / d > 1000\<close>, whatever \<open>d\<close> is.\<close>

lemma fl_app_tests:
  "(d < Fin lit_1e_5 \<or> Fin 1 / d > Fin lit_1000f) \<longleftrightarrow>
   (d \<le> Fin lit_1e_5 \<or> Fin 1 / d > Fin lit_1000f)"
proof (cases d)
  case (Fin a)
  have "Fin 1 / Fin lit_1e_5 > Fin lit_1000f"
    by (simp add: lit_1e_5_def lit_1000f_def deliver_def flt_max_def)
  then show ?thesis
    using Fin by (cases "a = lit_1e_5") auto
qed simp_all

lemma fl_wall_kept_below_ceiling:
  assumes "d > Fin lit_0_01f"
  shows "\<not> Fin 1 / d > Fin lit_1000f"
proof (cases d)
  case (Fin a)
  with assms have a: "lit_0_01f < a" by simp
  with lit_0_01f_bounds have pos: "0 < a" by linarith
  from a lit_0_01f_bounds have "1 / a < 1000"
    using pos by (simp add: field_simps)
  moreover from pos have "0 < 1 / a" by simp
  ultimately show ?thesis
    using Fin pos by (simp add: deliver_def flt_max_def lit_1000f_def)
next
  case PInf
  then show ?thesis by (simp add: lit_1000f_def)
next
  case NInf
  with assms show ?thesis by simp
next
  case NaN
  with assms show ?thesis by simp
qed

text \<open>
  C5 (amended). In both estimators the cloud is the grid read in row-major order, each cell
  giving no point or exactly one. \<open>findPlanesRansac\<close> gives a cell up when its inverse
  depth is at most the epsilon \<open>1e-5\<close> or \<open>Z = 1 / inverseDepth\<close> is above the ceiling
  \<open>1000\<close>, and takes one point from every other cell, a NaN cell included.
  \<open>detect_walls_ransac\<close> takes one point from a cell exactly when its inverse depth is
  above the epsilon \<open>0.01f\<close> and gives every other cell up, a NaN cell included; it has no
  test of a ceiling, and no cell it keeps has a \<open>Z\<close> above \<open>1000\<close>.
\<close>

theorem cells_that_give_a_point:
  "fl_app_point_cloud depthMap width height fx fy cx cy =
     concat (map (\<lambda>(v, u). fl_app_cell depthMap width fx fy cx cy v u [])
               (grid_cells width height))
   \<and>
   length (fl_app_cell depthMap width fx fy cx cy v u []) =
     (if depthMap (v * width + u) \<le> Fin lit_1e_5 \<or>
         Fin 1 / depthMap (v * width + u) > Fin lit_1000f
      then 0 else 1)
   \<and>
   fl_wall_point_cloud depthMap width height fx fy cx cy =
     concat (map (\<lambda>(v, u). fl_wall_cell depthMap width fx fy cx cy v u [])
               (grid_cells width height))
   \<and>
   length (fl_wall_cell depthMap width fx fy cx cy v u []) =
     (if depthMap (v * width + u) > Fin lit_0_01f then 1 else 0)
   \<and>
   (depthMap (v * width + u) > Fin lit_0_01f \<longrightarrow>
      \<not> Fin 1 / depthMap (v * width + u) > Fin lit_1000f)"
proof (intro conjI impI)
  show "fl_app_point_cloud depthMap width height fx fy cx cy =
     concat (map (\<lambda>(v, u). fl_app_cell depthMap width fx fy cx cy v u [])
               (grid_cells width height))"
    by (rule fl_app_point_cloud_eq)
next
  let ?d = "depthMap (v * width + u)"
  have "length (fl_app_cell depthMap width fx fy cx cy v u []) =
     (if ?d < Fin lit_1e_5 \<or> Fin 1 / ?d > Fin lit_1000f then 0 else 1)"
    by (simp add: fl_app_cell_def Let_def)
  then show "length (fl_app_cell depthMap width fx fy cx cy v u []) =
     (if ?d \<le> Fin lit_1e_5 \<or> Fin 1 / ?d > Fin lit_1000f then 0 else 1)"
    by (simp only: fl_app_tests)
next
  show "fl_wall_point_cloud depthMap width height fx fy cx cy =
     concat (map (\<lambda>(v, u). fl_wall_cell depthMap width fx fy cx cy v u [])
               (grid_cells width height))"
    by (rule fl_wall_point_cloud_eq)
next
  show "length (fl_wall_cell depthMap width fx fy cx cy v u []) =
     (if depthMap (v * width + u) > Fin lit_0_01f then 1 else 0)"
    by (simp add: fl_wall_cell_def Let_def)
next
  assume "depthMap (v * width + u) > Fin lit_0_01f"
  then show "\<not> Fin 1 / depthMap (v * width + u) > Fin lit_1000f"
    by (rule fl_wall_kept_below_ceiling)
qed

text \<open>A grid of one cell with inverse depth \<open>1/2\<close>: both estimators take its point,
  with \<open>Z = 2\<close>.\<close>

theorem cells_that_give_a_point_witness:
  "Fin (1 / 2) > Fin lit_0_01f \<and> \<not> Fin 1 / Fin (1 / 2) > Fin lit_1000f \<and>
   fl_app_point_cloud (\<lambda>i. Fin (1 / 2)) 1 1 (Fin 1) (Fin 1) (Fin 0) (Fin 1) =
     [FPoint3D (Fin 0) (Fin (- 2)) (Fin 2)] \<and>
   fl_wall_point_cloud (\<lambda>i. Fin (1 / 2)) 1 1 (Fin 1) (Fin 1) (Fin 0) (Fin 1) =
     [FPoint3D (Fin 0) (Fin 2) (Fin 2)]"
  using cells_that_give_a_point [of "\<lambda>i. Fin (1 / 2)" 1 1 "Fin 1" "Fin 1" "Fin 0" "Fin 1" 0 0]
  by (simp add: grid_cells_1_1 fl_app_cell_def fl_wall_cell_def fl_of_int_def minus_fl_def
        deliver_def flt_max_def lit_1e_5_def lit_1000f_def lit_0_01f_def Let_def)

text \<open>
  C5 as stated fails for \<open>detect_walls_ransac\<close>. A NaN inverse depth is not at most the
  epsilon, and \<open>1 / NaN\<close> is not above the ceiling, so the cell is one of "every other
  cell"; the test \<open>inv_d > 0.01f\<close> of line 51 is false on it and the cell gives no point.
  \<open>findPlanesRansac\<close> takes a point from the same cell.
\<close>

theorem detect_walls_ransac_drops_NaN_cell:
  "\<not> NaN \<le> Fin lit_0_01f \<and> \<not> Fin 1 / NaN > Fin lit_1000f \<and>
   fl_wall_point_cloud (\<lambda>i. NaN) 1 1 (Fin 1) (Fin 1) (Fin 0) (Fin 0) = [] \<and>
   fl_app_point_cloud (\<lambda>i. NaN) 1 1 (Fin 1) (Fin 1) (Fin 0) (Fin 0) =
     [FPoint3D NaN NaN NaN]"
  by (simp add: fl_app_point_cloud_eq fl_wall_point_cloud_eq grid_cells_1_1 fl_app_cell_def
        fl_wall_cell_def fl_of_int_def minus_fl_def deliver_def flt_max_def Let_def)

text \<open>On a depth map of finite values both embeddings keep the same cells.\<close>

lemma length_concat_map_cong:
  "(\<And>x. x \<in> set xs \<Longrightarrow> length (f x) = length (g x)) \<Longrightarrow>
     length (concat (map f xs)) = length (concat (map g xs))"
  by (induction xs) simp_all

lemma finite_depth_same_cells:
  "length (fl_app_point_cloud (\<lambda>i. Fin (depthMap i)) width height fx fy cx cy) =
     length (app_point_cloud depthMap width height rfx rfy rcx rcy)
   \<and>
   length (fl_wall_point_cloud (\<lambda>i. Fin (depthMap i)) width height fx fy cx cy) =
     length (wall_point_cloud depthMap width height rfx rfy rcx rcy)"
proof (rule conjI)
  have app: "length (fl_app_cell (\<lambda>i. Fin (depthMap i)) width fx fy cx cy v u []) =
      length (app_cell depthMap width rfx rfy rcx rcy v u [])" for v u
  proof (cases "depthMap (v * width + u) < lit_1e_5")
    case True
    then show ?thesis
      by (simp add: fl_app_cell_def app_cell_def Let_def)
  next
    case False
    with lit_1e_5_bounds have pos: "0 < depthMap (v * width + u)" by linarith
    define z where "z = 1 / depthMap (v * width + u)"
    from pos have "0 < z" by (simp add: z_def)
    moreover from False lit_1e_5_bounds pos have "z \<le> 2 ^ 17"
      by (simp add: z_def field_simps lit_1e_5_def)
    ultimately have "deliver z = Fin z"
      by (simp add: deliver_def flt_max_def)
    with pos False show ?thesis
      by (simp add: fl_app_cell_def app_cell_def Let_def z_def)
  qed
  show "length (fl_app_point_cloud (\<lambda>i. Fin (depthMap i)) width height fx fy cx cy) =
     length (app_point_cloud depthMap width height rfx rfy rcx rcy)"
    unfolding fl_app_point_cloud_eq app_point_cloud_eq
    by (rule length_concat_map_cong) (auto simp: app)
next
  have wall: "length (fl_wall_cell (\<lambda>i. Fin (depthMap i)) width fx fy cx cy v u []) =
      length (wall_cell depthMap width rfx rfy rcx rcy v u [])" for v u
    by (simp add: fl_wall_cell_def wall_cell_def Let_def)
  show "length (fl_wall_point_cloud (\<lambda>i. Fin (depthMap i)) width height fx fy cx cy) =
     length (wall_point_cloud depthMap width height rfx rfy rcx rcy)"
    unfolding fl_wall_point_cloud_eq wall_point_cloud_eq
    by (rule length_concat_map_cong) (auto simp: wall)
qed

section \<open>Scoring\<close>

lemma app_count_inliers_eq:
  "app_count_inliers plane thr ps k =
     k + int (length (filter (\<lambda>p. pointPlaneDistance p plane < thr) ps))"
  by (induction ps arbitrary: k) simp_all

lemma wall_count_inliers_eq:
  "wall_count_inliers A B C D thr ps k =
     k + int (length (filter (\<lambda>p. \<bar>A * p_x p + B * p_y p + C * p_z p + D\<bar> < thr) ps))"
  by (induction ps arbitrary: k) (simp_all add: Let_def)

lemma app_candidate_count_nonneg: "app_candidate ps thr idx = Scored plane n \<Longrightarrow> 0 \<le> n"
  by (auto simp: app_candidate_def app_count_inliers_eq split: prod.splits if_splits option.splits)

lemma wall_candidate_count_nonneg: "wall_candidate ps thr idx = Scored plane n \<Longrightarrow> 0 \<le> n"
  by (auto simp: wall_candidate_def wall_count_inliers_eq Let_def split: prod.splits if_splits)

section \<open>The inlier count of a candidate\<close>

text \<open>
  C8. When an iteration of either estimator scores a candidate plane \<open>(a, b, c, d)\<close>, its
  count is the number of points of the whole cloud, the sampled ones included, with
  \<open>|a x + b y + c z + d| < distanceThreshold\<close>. The comparison is strict: a point whose
  distance equals the threshold is not counted.
\<close>

theorem inlier_count_is_strict_filter:
  "(app_candidate pointCloud distanceThreshold idx = Scored plane n \<longrightarrow>
      n = int (length (filter
                (\<lambda>p. \<bar>pl_a plane * p_x p + pl_b plane * p_y p + pl_c plane * p_z p
                        + pl_d plane\<bar> < distanceThreshold) pointCloud)))
   \<and>
   (wall_candidate pointCloud distanceThreshold idx = Scored plane n \<longrightarrow>
      n = int (length (filter
                (\<lambda>p. \<bar>pl_a plane * p_x p + pl_b plane * p_y p + pl_c plane * p_z p
                        + pl_d plane\<bar> < distanceThreshold) pointCloud)))"
proof (rule conjI; rule impI)
  assume "app_candidate pointCloud distanceThreshold idx = Scored plane n"
  then show "n = int (length (filter
                (\<lambda>p. \<bar>pl_a plane * p_x p + pl_b plane * p_y p + pl_c plane * p_z p
                        + pl_d plane\<bar> < distanceThreshold) pointCloud))"
    by (auto simp: app_candidate_def app_count_inliers_eq pointPlaneDistance_def
             split: prod.splits if_splits option.splits)
next
  assume "wall_candidate pointCloud distanceThreshold idx = Scored plane n"
  then show "n = int (length (filter
                (\<lambda>p. \<bar>pl_a plane * p_x p + pl_b plane * p_y p + pl_c plane * p_z p
                        + pl_d plane\<bar> < distanceThreshold) pointCloud))"
    by (auto simp: wall_candidate_def wall_count_inliers_eq Let_def
             split: prod.splits if_splits)
qed

text \<open>Three points on the plane \<open>z = 1\<close> and one at distance \<open>1/2\<close>, the threshold:
  the count is 3.\<close>

theorem inlier_count_is_strict_filter_witness:
  "app_candidate [Point3D 0 0 1, Point3D 1 0 1, Point3D 0 1 1, Point3D 1 1 (3 / 2)] (1 / 2)
     (0, 1, 2) = Scored (Plane 0 0 1 (- 1)) 3 \<and>
   wall_candidate [Point3D 0 0 1, Point3D 1 0 1, Point3D 0 1 1, Point3D 1 1 (3 / 2)] (1 / 2)
     (0, 1, 2) = Scored (Plane 0 0 1 (- 1)) 3 \<and>
   (3::int) = int (length (filter
                (\<lambda>p. \<bar>pl_a (Plane 0 0 1 (- 1)) * p_x p + pl_b (Plane 0 0 1 (- 1)) * p_y p
                        + pl_c (Plane 0 0 1 (- 1)) * p_z p + pl_d (Plane 0 0 1 (- 1))\<bar> < 1 / 2)
                [Point3D 0 0 1, Point3D 1 0 1, Point3D 0 1 1, Point3D 1 1 (3 / 2)]))"
  using inlier_count_is_strict_filter
          [of "[Point3D 0 0 1, Point3D 1 0 1, Point3D 0 1 1, Point3D 1 1 (3 / 2)]" "1 / 2"
              "(0, 1, 2)" "Plane 0 0 1 (- 1)" 3]
  by (simp add: app_candidate_def wall_candidate_def calculatePlane_def float_epsilon_def
        lit_1e_6_def pointPlaneDistance_def Let_def)

section \<open>Sampling\<close>


lemma draw_triple_Some:
  "draw_triple n rng = Some ((i1, i2, i3), rng') \<longleftrightarrow>
     rng = i1 # i2 # i3 # rng' \<and> i1 < n \<and> i2 < n \<and> i3 < n"
  by (auto simp: draw_triple_def draw_def split: option.splits list.splits if_splits)





section \<open>The loop as a fold over its outcomes\<close>

lemma ransac_loop_outcomes:
  "map_option fst (ransac_loop body maxIterations iter rng best) =
     map_option (foldl update_best best) (loop_outcomes body maxIterations iter rng)"
proof (induction body maxIterations iter rng best rule: ransac_loop.induct)
  case (1 body maxIterations iter rng best)
  show ?case
  proof (cases "iter < maxIterations")
    case True
    show ?thesis
    proof (cases "body rng")
      case None
      with True show ?thesis
        by (subst ransac_loop.simps, subst loop_outcomes.simps) simp
    next
      case (Some r)
      obtain oc rng' where r: "r = (oc, rng')" by (cases r)
      from "1.IH" [OF True Some [unfolded r] refl] True Some r show ?thesis
        by (subst ransac_loop.simps, subst loop_outcomes.simps)
           (simp add: option.map_comp comp_def split: option.splits)
    qed
  next
    case False
    then show ?thesis
      by (subst ransac_loop.simps, subst loop_outcomes.simps) simp
  qed
qed

lemma loop_outcomes_length:
  "loop_outcomes body maxIterations iter rng = Some ocs \<Longrightarrow>
     length ocs = nat (maxIterations - iter)"
proof (induction body maxIterations iter rng arbitrary: ocs rule: loop_outcomes.induct)
  case (1 body maxIterations iter rng)
  show ?case
  proof (cases "iter < maxIterations")
    case True
    with "1.prems" obtain oc rng' ocs' where b: "body rng = Some (oc, rng')"
      and l: "loop_outcomes body maxIterations (iter + 1) rng' = Some ocs'"
      and o: "ocs = oc # ocs'"
      by (subst (asm) loop_outcomes.simps) (auto split: option.splits)
    from "1.IH" [OF True b refl l] True o show ?thesis
      by simp
  next
    case False
    with "1.prems" show ?thesis
      by (subst (asm) loop_outcomes.simps) simp
  qed
qed

lemma update_best_changes:
  "update_best b oc \<noteq> b \<longleftrightarrow> (\<exists>plane n. oc = Scored plane n \<and> snd b < n)"
  by (cases oc; cases b) (auto simp: update_best_def)

lemma foldl_update_best_first_max:
  "foldl update_best b ocs = b' \<Longrightarrow>
     (b' = b \<and> list_all (\<lambda>q. snd q \<le> snd b) (scored ocs)) \<or>
     (snd b < snd b' \<and>
      (\<exists>pre suf. scored ocs = pre @ b' # suf \<and> list_all (\<lambda>q. snd q < snd b') pre \<and>
                  list_all (\<lambda>q. snd q \<le> snd b') suf))"
proof (induction ocs arbitrary: b)
  case Nil
  then show ?case by simp
next
  case (Cons oc ocs)
  let ?b1 = "update_best b oc"
  from Cons.prems have f: "foldl update_best ?b1 ocs = b'" by simp
  note IH = Cons.IH [OF f]
  show ?case
  proof (cases "\<exists>plane n. oc = Scored plane n \<and> snd b < n")
    case True
    then obtain plane n where oc: "oc = Scored plane n" and n: "snd b < n" by blast
    then have b1: "?b1 = (plane, n)" by (simp add: update_best_def)
    from IH show ?thesis
    proof
      assume a: "b' = ?b1 \<and> list_all (\<lambda>q. snd q \<le> snd ?b1) (scored ocs)"
      with b1 have b': "b' = (plane, n)" and le: "list_all (\<lambda>q. snd q \<le> n) (scored ocs)"
        by simp_all
      have "scored (oc # ocs) = [] @ b' # scored ocs"
        by (simp add: oc b')
      with le n b' show ?thesis
        by (intro disjI2 conjI exI [of _ "[]"] exI [of _ "scored ocs"]) simp_all
    next
      assume a: "snd ?b1 < snd b' \<and>
        (\<exists>pre suf. scored ocs = pre @ b' # suf \<and> list_all (\<lambda>q. snd q < snd b') pre \<and>
                    list_all (\<lambda>q. snd q \<le> snd b') suf)"
      then obtain pre suf where s: "scored ocs = pre @ b' # suf"
        and p: "list_all (\<lambda>q. snd q < snd b') pre" and q: "list_all (\<lambda>q. snd q \<le> snd b') suf"
        by blast
      from a b1 have lt: "n < snd b'" by simp
      have "scored (oc # ocs) = ((plane, n) # pre) @ b' # suf"
        by (simp add: oc s)
      with p q lt n show ?thesis
        by (intro disjI2 conjI exI [of _ "(plane, n) # pre"] exI [of _ suf]) simp_all
    qed
  next
    case False
    then have b1: "?b1 = b" using update_best_changes [of b oc] by blast
    show ?thesis
    proof (cases oc)
      case (Scored plane n)
      with False have n: "n \<le> snd b" by auto
      from IH show ?thesis
      proof
        assume "b' = ?b1 \<and> list_all (\<lambda>q. snd q \<le> snd ?b1) (scored ocs)"
        with b1 n Scored show ?thesis by simp
      next
        assume a: "snd ?b1 < snd b' \<and>
          (\<exists>pre suf. scored ocs = pre @ b' # suf \<and> list_all (\<lambda>q. snd q < snd b') pre \<and>
                      list_all (\<lambda>q. snd q \<le> snd b') suf)"
        then obtain pre suf where s: "scored ocs = pre @ b' # suf"
          and p: "list_all (\<lambda>q. snd q < snd b') pre"
          and q: "list_all (\<lambda>q. snd q \<le> snd b') suf"
          by blast
        from a b1 have lt: "snd b < snd b'" by simp
        have "scored (oc # ocs) = ((plane, n) # pre) @ b' # suf"
          by (simp add: Scored s)
        with p q lt n show ?thesis
          by (intro disjI2 conjI exI [of _ "(plane, n) # pre"] exI [of _ suf]) simp_all
      qed
    next
      case Collision
      with IH b1 show ?thesis by simp
    next
      case Degenerate
      with IH b1 show ?thesis by simp
    qed
  qed
qed

lemma loop_outcomes_scored_all:
  "loop_outcomes body maxIterations iter rng = Some ocs \<Longrightarrow>
   (\<forall>rng rng' plane n. body rng = Some (Scored plane n, rng') \<longrightarrow> P (plane, n)) \<Longrightarrow>
     list_all P (scored ocs)"
proof (induction body maxIterations iter rng arbitrary: ocs rule: loop_outcomes.induct)
  case (1 body maxIterations iter rng)
  note all = "1.prems" (2)
  show ?case
  proof (cases "iter < maxIterations")
    case True
    with "1.prems" (1) obtain oc rng' ocs' where b: "body rng = Some (oc, rng')"
      and l: "loop_outcomes body maxIterations (iter + 1) rng' = Some ocs'"
      and o: "ocs = oc # ocs'"
      by (subst (asm) loop_outcomes.simps) (auto split: option.splits)
    from "1.IH" [OF True b refl l all] have "list_all P (scored ocs')" .
    moreover have "P (plane, n)" if "oc = Scored plane n" for plane n
      using all b that by blast
    ultimately show ?thesis
      using o by (cases oc) auto
  next
    case False
    with "1.prems" (1) show ?thesis
      by (subst (asm) loop_outcomes.simps) auto
  qed
qed

lemma loop_outcomes_scored_nonneg:
  "loop_outcomes body maxIterations iter rng = Some ocs \<Longrightarrow>
   (\<forall>rng rng' plane n. body rng = Some (Scored plane n, rng') \<longrightarrow> 0 \<le> n) \<Longrightarrow>
     list_all (\<lambda>q. 0 \<le> snd q) (scored ocs)"
  by (rule loop_outcomes_scored_all) auto

section \<open>When the sampling returns\<close>





section \<open>Sampling three indices\<close>




section \<open>Runs of the loop\<close>

lemma app_iteration_count_nonneg:
  "app_iteration ps thr rng = Some (Scored plane n, rng') \<Longrightarrow> 0 \<le> n"
  by (auto simp: app_iteration_def split: option.splits dest: app_candidate_count_nonneg)

lemma wall_iteration_count_nonneg:
  "wall_iteration ps thr rng = Some (Scored plane n, rng') \<Longrightarrow> 0 \<le> n"
  by (auto simp: wall_iteration_def split: option.splits dest: wall_candidate_count_nonneg)

lemma app_loop_returns:
  "list_all (\<lambda>j. j < length ps) rng \<Longrightarrow> 3 * nat (maxIterations - iter) \<le> length rng \<Longrightarrow>
     ransac_loop (app_iteration ps thr) maxIterations iter rng best \<noteq> None"
proof (induction "nat (maxIterations - iter)" arbitrary: iter rng best)
  case 0
  then have "\<not> iter < maxIterations" by simp
  then show ?case
    by (subst ransac_loop.simps) simp
next
  case (Suc k)
  then have lt: "iter < maxIterations" and k: "k = nat (maxIterations - (iter + 1))"
    by linarith+
  from Suc.hyps (2) Suc.prems (2) have "3 \<le> length rng" by linarith
  then obtain i1 i2 i3 rest where rng: "rng = i1 # i2 # i3 # rest"
    by (cases rng; cases "tl rng"; cases "tl (tl rng)") auto
  with Suc.prems (1)
  have it: "app_iteration ps thr rng = Some (app_candidate ps thr (i1, i2, i3), rest)"
    and rest: "list_all (\<lambda>j. j < length ps) rest"
    by (simp_all add: app_iteration_def draw_triple_def draw_def)
  from Suc.prems (2) Suc.hyps (2) k rng
  have len: "3 * nat (maxIterations - (iter + 1)) \<le> length rest"
    by simp
  from Suc.hyps (1) [OF k rest len] lt it show ?case
    by (subst ransac_loop.simps) simp
qed

lemma draw_append:
  "draw n rng = Some (i, rng') \<Longrightarrow> draw n (rng @ more) = Some (i, rng' @ more)"
  by (cases rng) (auto simp: draw_def split: if_splits)

lemma draw_triple_append:
  "draw_triple n rng = Some (t, rng') \<Longrightarrow> draw_triple n (rng @ more) = Some (t, rng' @ more)"
  by (cases t) (auto simp: draw_triple_Some)

lemma wall_while_idx2_append:
  "wall_while_idx2 n idx1 idx2 rng = Some (i, rng') \<Longrightarrow>
     wall_while_idx2 n idx1 idx2 (rng @ more) = Some (i, rng' @ more)"
proof (induction n idx1 idx2 rng rule: wall_while_idx2.induct)
  case (1 n idx1 idx2 rng)
  show ?case
  proof (cases "idx2 = idx1")
    case True
    with "1.prems" obtain j rng1 where d: "draw n rng = Some (j, rng1)"
      and w: "wall_while_idx2 n idx1 j rng1 = Some (i, rng')"
      by (subst (asm) wall_while_idx2.simps) (auto split: option.splits)
    from "1.IH" [OF True d refl w] True draw_append [OF d, of more] show ?thesis
      by (subst wall_while_idx2.simps) simp
  next
    case False
    with "1.prems" have "i = idx2" "rng' = rng"
      by (subst (asm) wall_while_idx2.simps; simp)+
    with False show ?thesis
      by (subst wall_while_idx2.simps) simp
  qed
qed

lemma wall_while_idx3_append:
  "wall_while_idx3 n idx1 idx2 idx3 rng = Some (i, rng') \<Longrightarrow>
     wall_while_idx3 n idx1 idx2 idx3 (rng @ more) = Some (i, rng' @ more)"
proof (induction n idx1 idx2 idx3 rng rule: wall_while_idx3.induct)
  case (1 n idx1 idx2 idx3 rng)
  show ?case
  proof (cases "idx3 = idx1 \<or> idx3 = idx2")
    case True
    with "1.prems" obtain j rng1 where d: "draw n rng = Some (j, rng1)"
      and w: "wall_while_idx3 n idx1 idx2 j rng1 = Some (i, rng')"
      by (subst (asm) wall_while_idx3.simps) (auto split: option.splits)
    from "1.IH" [OF True d refl w] True draw_append [OF d, of more] show ?thesis
      by (subst wall_while_idx3.simps) simp
  next
    case False
    with "1.prems" have "i = idx3" "rng' = rng"
      by (subst (asm) wall_while_idx3.simps; simp)+
    with False show ?thesis
      by (subst wall_while_idx3.simps) simp
  qed
qed

lemma wall_sample_append:
  assumes "wall_sample n rng = Some (t, rng')"
  shows "wall_sample n (rng @ more) = Some (t, rng' @ more)"
proof -
  from assms obtain idx1 j2 j3 idx2 idx3 rng3 rng4
    where t: "draw_triple n rng = Some ((idx1, j2, j3), rng3)"
      and w2: "wall_while_idx2 n idx1 j2 rng3 = Some (idx2, rng4)"
      and w3: "wall_while_idx3 n idx1 idx2 j3 rng4 = Some (idx3, rng')"
      and res: "t = (idx1, idx2, idx3)"
    by (auto simp: wall_sample_def split: option.splits prod.splits)
  show ?thesis
    by (simp add: wall_sample_def res draw_triple_append [OF t] wall_while_idx2_append [OF w2]
          wall_while_idx3_append [OF w3])
qed

lemma app_iteration_append:
  "app_iteration ps thr rng = Some (oc, rng') \<Longrightarrow>
     app_iteration ps thr (rng @ more) = Some (oc, rng' @ more)"
  by (auto simp: app_iteration_def draw_triple_append split: option.splits)

lemma wall_iteration_append:
  "wall_iteration ps thr rng = Some (oc, rng') \<Longrightarrow>
     wall_iteration ps thr (rng @ more) = Some (oc, rng' @ more)"
  by (auto simp: wall_iteration_def wall_sample_append split: option.splits)

lemma ransac_loop_append:
  "ransac_loop body maxIterations iter rng best = Some (b, rng') \<Longrightarrow>
   (\<forall>rng oc rng'. body rng = Some (oc, rng') \<longrightarrow> body (rng @ more) = Some (oc, rng' @ more)) \<Longrightarrow>
     ransac_loop body maxIterations iter (rng @ more) best = Some (b, rng' @ more)"
proof (induction body maxIterations iter rng best rule: ransac_loop.induct)
  case (1 body maxIterations iter rng best)
  note mono = "1.prems" (2)
  show ?case
  proof (cases "iter < maxIterations")
    case True
    with "1.prems" (1) obtain oc rng1 where bd: "body rng = Some (oc, rng1)"
      and l: "ransac_loop body maxIterations (iter + 1) rng1 (update_best best oc) = Some (b, rng')"
      by (subst (asm) ransac_loop.simps) (auto split: option.splits)
    from mono bd have "body (rng @ more) = Some (oc, rng1 @ more)" by blast
    with "1.IH" [OF True bd refl l mono] True show ?thesis
      by (subst ransac_loop.simps) simp
  next
    case False
    with "1.prems" (1) have "b = best" "rng' = rng"
      by (subst (asm) ransac_loop.simps; simp)+
    with False show ?thesis
      by (subst ransac_loop.simps) simp
  qed
qed

section \<open>The retained plane\<close>

text \<open>
  C9. In both estimators an iteration replaces the retained plane exactly when it scores a
  candidate whose count is strictly greater than the best count so far. Hence, for the
  indices a run draws, the plane retained after the loop is the first scored candidate that
  reaches the greatest count: every scored candidate before it has a smaller count, every
  one after it a count that is no greater. When no candidate was scored the initial pair
  (the zero plane, count \<open>-1\<close>) is retained.
\<close>

theorem retained_plane_is_first_maximum:
  assumes "body = app_iteration pointCloud thr \<or> body = wall_iteration pointCloud thr"
    and "ransac_loop body maxIterations 0 rng (Plane 0 0 0 0, - 1) = Some (best, rng')"
  shows "(update_best b oc \<noteq> b \<longleftrightarrow> (\<exists>plane n. oc = Scored plane n \<and> snd b < n))
         \<and>
         (\<exists>ocs. loop_outcomes body maxIterations 0 rng = Some ocs \<and>
            length ocs = nat maxIterations \<and>
            best = foldl update_best (Plane 0 0 0 0, - 1) ocs \<and>
            (if scored ocs = [] then best = (Plane 0 0 0 0, - 1)
             else \<exists>pre suf. scored ocs = pre @ best # suf \<and>
                    list_all (\<lambda>q. snd q < snd best) pre \<and>
                    list_all (\<lambda>q. snd q \<le> snd best) suf))"
proof (rule conjI)
  show "update_best b oc \<noteq> b \<longleftrightarrow> (\<exists>plane n. oc = Scored plane n \<and> snd b < n)"
    by (rule update_best_changes)
next
  let ?init = "(Plane 0 0 0 0, - 1 :: int)"
  from assms (2) ransac_loop_outcomes [of body maxIterations 0 rng ?init]
  obtain ocs where ocs: "loop_outcomes body maxIterations 0 rng = Some ocs"
    and best: "best = foldl update_best ?init ocs"
    by (cases "loop_outcomes body maxIterations 0 rng") auto
  from loop_outcomes_length [OF ocs] have len: "length ocs = nat maxIterations"
    by simp
  from assms (1)
  have "\<forall>rng rng' plane n. body rng = Some (Scored plane n, rng') \<longrightarrow> 0 \<le> n"
    by (auto dest: app_iteration_count_nonneg wall_iteration_count_nonneg)
  from loop_outcomes_scored_nonneg [OF ocs this]
  have nonneg: "list_all (\<lambda>q. 0 \<le> snd q) (scored ocs)" .
  from foldl_update_best_first_max [OF best [symmetric]]
  have "if scored ocs = [] then best = ?init
        else \<exists>pre suf. scored ocs = pre @ best # suf \<and>
               list_all (\<lambda>q. snd q < snd best) pre \<and> list_all (\<lambda>q. snd q \<le> snd best) suf"
  proof
    assume a: "best = ?init \<and> list_all (\<lambda>q. snd q \<le> snd ?init) (scored ocs)"
    have "scored ocs = []"
    proof (cases "scored ocs")
      case (Cons q qs)
      with a nonneg show ?thesis by auto
    qed simp
    with a show ?thesis by simp
  next
    assume "snd ?init < snd best \<and>
      (\<exists>pre suf. scored ocs = pre @ best # suf \<and> list_all (\<lambda>q. snd q < snd best) pre \<and>
                  list_all (\<lambda>q. snd q \<le> snd best) suf)"
    then show ?thesis by auto
  qed
  with ocs len best
  show "\<exists>ocs. loop_outcomes body maxIterations 0 rng = Some ocs \<and>
            length ocs = nat maxIterations \<and>
            best = foldl update_best (Plane 0 0 0 0, - 1) ocs \<and>
            (if scored ocs = [] then best = (Plane 0 0 0 0, - 1)
             else \<exists>pre suf. scored ocs = pre @ best # suf \<and>
                    list_all (\<lambda>q. snd q < snd best) pre \<and>
                    list_all (\<lambda>q. snd q \<le> snd best) suf)"
    by blast
qed

text \<open>Two iterations on four coplanar points: both triples score 4, with opposite
  normals, and the plane of the first is the one retained.\<close>

theorem retained_plane_is_first_maximum_witness:
  "ransac_loop
     (app_iteration [Point3D 0 0 1, Point3D 1 0 1, Point3D 0 1 1, Point3D 1 1 1] (1 / 2))
     2 0 [0, 1, 2, 0, 2, 1] (Plane 0 0 0 0, - 1) = Some ((Plane 0 0 1 (- 1), 4), []) \<and>
   loop_outcomes
     (app_iteration [Point3D 0 0 1, Point3D 1 0 1, Point3D 0 1 1, Point3D 1 1 1] (1 / 2))
     2 0 [0, 1, 2, 0, 2, 1] = Some [Scored (Plane 0 0 1 (- 1)) 4, Scored (Plane 0 0 (- 1) 1) 4] \<and>
   (update_best (Plane 0 0 1 (- 1), 4) (Scored (Plane 0 0 (- 1) 1) 4) \<noteq> (Plane 0 0 1 (- 1), 4)
      \<longleftrightarrow> (\<exists>plane n. Scored (Plane 0 0 (- 1) 1) 4 = Scored plane n \<and>
                        snd (Plane 0 0 1 (- 1), 4 :: int) < n))"
proof -
  let ?ps = "[Point3D 0 0 1, Point3D 1 0 1, Point3D 0 1 1, Point3D 1 1 1]"
  have run: "ransac_loop (app_iteration ?ps (1 / 2)) 2 0 [0, 1, 2, 0, 2, 1]
      (Plane 0 0 0 0, - 1) = Some ((Plane 0 0 1 (- 1), 4), [])"
    by (simp add: ransac_loop.simps app_iteration_def draw_triple_def draw_def
          app_candidate_def calculatePlane_def float_epsilon_def pointPlaneDistance_def
          update_best_def Let_def)
  have outs: "loop_outcomes (app_iteration ?ps (1 / 2)) 2 0 [0, 1, 2, 0, 2, 1] =
      Some [Scored (Plane 0 0 1 (- 1)) 4, Scored (Plane 0 0 (- 1) 1) 4]"
    by (simp add: loop_outcomes.simps app_iteration_def draw_triple_def draw_def
          app_candidate_def calculatePlane_def float_epsilon_def pointPlaneDistance_def
          Let_def)
  from retained_plane_is_first_maximum
         [OF disjI1 [OF refl] run, of "(Plane 0 0 1 (- 1), 4)" "Scored (Plane 0 0 (- 1) 1) 4"]
       run outs
  show ?thesis by blast
qed

section \<open>Early exit and the decision after the loop\<close>

text \<open>
  C6 (amended). Let \<open>minInliers\<close> be a non-negative \<open>int\<close> and \<open>width * height\<close> a
  non-negative \<open>int\<close>. When the cloud has fewer than 3 points or fewer than
  \<open>minInliers\<close> points, both estimators return the empty result whatever the random
  source holds: the loop is not entered. Otherwise the result is decided by the best count
  \<open>n\<close> the loop ends with. \<open>findPlanesRansac\<close> returns exactly one plane, the best
  plane with \<open>n\<close>, when \<open>n \<ge> minInliers\<close>, and the empty vector otherwise; its loop
  returns as soon as the source holds three indices per iteration.
  \<open>detect_walls_ransac\<close> writes that one plane and returns 1 when
  \<open>n \<ge> min_inliers\<close> and \<open>max_planes \<ge> 1\<close>, and returns 0 otherwise.
\<close>

theorem early_exit_and_final_decision:
  assumes "0 \<le> minInliers" and "minInliers < 2 ^ 31"
    and "0 \<le> width * height" and "width * height < 2 ^ 31"
  shows "(let pointCloud = app_point_cloud depthMap width height fx fy cx cy
          in if length pointCloud < 3 \<or> int (length pointCloud) < minInliers
             then findPlanesRansac depthMap width height fx fy cx cy thr minInliers
                    maxIterations rng = Some (Inr [])
             else
               (case ransac_loop (app_iteration pointCloud thr) maxIterations 0 rng
                       (Plane 0 0 0 0, - 1) of
                  None \<Rightarrow>
                    findPlanesRansac depthMap width height fx fy cx cy thr minInliers
                      maxIterations rng = None \<and>
                    (length rng < 3 * nat maxIterations \<or>
                     list_ex (\<lambda>i. length pointCloud \<le> i) rng)
                | Some ((plane, n), rng') \<Rightarrow>
                    findPlanesRansac depthMap width height fx fy cx cy thr minInliers
                      maxIterations rng =
                    Some (Inr (if minInliers \<le> n
                               then [PlaneResult (pl_a plane) (pl_b plane) (pl_c plane)
                                       (pl_d plane) n]
                               else []))))
         \<and>
         (let point_cloud = wall_point_cloud depthMap width height fx fy cx cy
          in if length point_cloud < 3 \<or> int (length point_cloud) < minInliers
             then detect_walls_ransac depthMap width height fx fy cx cy thr minInliers
                    maxIterations out_planes_buffer max_planes rng
                  = Some (Inr (0, out_planes_buffer))
             else
               (case ransac_loop (wall_iteration point_cloud thr) maxIterations 0 rng
                       (Plane 0 0 0 0, - 1) of
                  None \<Rightarrow>
                    detect_walls_ransac depthMap width height fx fy cx cy thr minInliers
                      maxIterations out_planes_buffer max_planes rng = None
                | Some ((plane, n), rng') \<Rightarrow>
                    detect_walls_ransac depthMap width height fx fy cx cy thr minInliers
                      maxIterations out_planes_buffer max_planes rng =
                    Some (Inr (if minInliers \<le> n \<and> 1 \<le> max_planes
                               then (1, out_planes_buffer
                                          (0 := RansacPlaneResult (pl_a plane) (pl_b plane)
                                                  (pl_c plane) (pl_d plane) n))
                               else (0, out_planes_buffer)))))"
proof (rule conjI)
  note cast = size_t_of_int_id [OF assms (1, 2)]
  note reserve = reserve_ok [OF assms (3, 4)]
  let ?ps = "app_point_cloud depthMap width height fx fy cx cy"
  have "length rng < 3 * nat maxIterations \<or> list_ex (\<lambda>i. length ?ps \<le> i) rng"
    if "ransac_loop (app_iteration ?ps thr) maxIterations 0 rng (Plane 0 0 0 0, - 1) = None"
  proof (rule ccontr)
    assume "\<not> (length rng < 3 * nat maxIterations \<or> list_ex (\<lambda>i. length ?ps \<le> i) rng)"
    then have "list_all (\<lambda>j. j < length ?ps) rng" "3 * nat (maxIterations - 0) \<le> length rng"
      by (auto simp: list_all_iff list_ex_iff not_le)
    from app_loop_returns [OF this] that show False by blast
  qed
  then show "let pointCloud = ?ps
          in if length pointCloud < 3 \<or> int (length pointCloud) < minInliers
             then findPlanesRansac depthMap width height fx fy cx cy thr minInliers
                    maxIterations rng = Some (Inr [])
             else
               (case ransac_loop (app_iteration pointCloud thr) maxIterations 0 rng
                       (Plane 0 0 0 0, - 1) of
                  None \<Rightarrow>
                    findPlanesRansac depthMap width height fx fy cx cy thr minInliers
                      maxIterations rng = None \<and>
                    (length rng < 3 * nat maxIterations \<or>
                     list_ex (\<lambda>i. length pointCloud \<le> i) rng)
                | Some ((plane, n), rng') \<Rightarrow>
                    findPlanesRansac depthMap width height fx fy cx cy thr minInliers
                      maxIterations rng =
                    Some (Inr (if minInliers \<le> n
                               then [PlaneResult (pl_a plane) (pl_b plane) (pl_c plane)
                                       (pl_d plane) n]
                               else [])))"
    by (auto simp: findPlanesRansac_def Let_def cast reserve split: option.splits)
next
  note cast = size_t_of_int_id [OF assms (1, 2)]
  note reserve = reserve_ok [OF assms (3, 4)]
  show "let point_cloud = wall_point_cloud depthMap width height fx fy cx cy
          in if length point_cloud < 3 \<or> int (length point_cloud) < minInliers
             then detect_walls_ransac depthMap width height fx fy cx cy thr minInliers
                    maxIterations out_planes_buffer max_planes rng
                  = Some (Inr (0, out_planes_buffer))
             else
               (case ransac_loop (wall_iteration point_cloud thr) maxIterations 0 rng
                       (Plane 0 0 0 0, - 1) of
                  None \<Rightarrow>
                    detect_walls_ransac depthMap width height fx fy cx cy thr minInliers
                      maxIterations out_planes_buffer max_planes rng = None
                | Some ((plane, n), rng') \<Rightarrow>
                    detect_walls_ransac depthMap width height fx fy cx cy thr minInliers
                      maxIterations out_planes_buffer max_planes rng =
                    Some (Inr (if minInliers \<le> n \<and> 1 \<le> max_planes
                               then (1, out_planes_buffer
                                          (0 := RansacPlaneResult (pl_a plane) (pl_b plane)
                                                  (pl_c plane) (pl_d plane) n))
                               else (0, out_planes_buffer))))"
    by (auto simp: detect_walls_ransac_def Let_def cast reserve split: option.splits)
qed

lemma app_cloud_2_2:
  "app_point_cloud (\<lambda>i. 1) 2 2 1 1 0 0 =
     [Point3D 0 0 1, Point3D 1 0 1, Point3D 0 1 1, Point3D 1 1 1]"
  by (simp add: app_point_cloud_eq grid_cells_2_2 app_cell_def lit_1e_5_def lit_1000f_def)

lemma wall_cloud_2_2:
  "wall_point_cloud (\<lambda>i. 1) 2 2 1 1 0 0 =
     [Point3D 0 0 1, Point3D 1 0 1, Point3D 0 (- 1) 1, Point3D 1 (- 1) 1]"
  by (simp add: wall_point_cloud_eq grid_cells_2_2 wall_cell_def lit_0_01f_def)

lemma app_loop_2_2:
  "ransac_loop (app_iteration [Point3D 0 0 1, Point3D 1 0 1, Point3D 0 1 1, Point3D 1 1 1] (1 / 2))
     1 0 [0, Suc 0, 2] (Plane 0 0 0 0, - 1) = Some ((Plane 0 0 1 (- 1), 4), [])"
  by (simp add: ransac_loop.simps app_iteration_def draw_triple_def draw_def
        app_candidate_def calculatePlane_def float_epsilon_def pointPlaneDistance_def
        update_best_def Let_def)

lemma wall_loop_2_2:
  "ransac_loop
     (wall_iteration [Point3D 0 0 1, Point3D 1 0 1, Point3D 0 (- 1) 1, Point3D 1 (- 1) 1] (1 / 2))
     1 0 [0, Suc 0, 2] (Plane 0 0 0 0, - 1) = Some ((Plane 0 0 (- 1) 1, 4), [])"
  by (simp add: ransac_loop.simps wall_iteration_def wall_sample_def draw_triple_def draw_def
        wall_while_idx2.simps wall_while_idx3.simps wall_candidate_def lit_1e_6_def
        update_best_def Let_def)

theorem early_exit_and_final_decision_witness:
  "(0::int) \<le> 3 \<and> (3::int) < 2 ^ 31 \<and> (0::int) \<le> 2 * 2 \<and> (2::int) * 2 < 2 ^ 31 \<and>
   findPlanesRansac (\<lambda>i. 1) 2 2 1 1 0 0 (1 / 2) 3 1 [0, 1, 2] =
     Some (Inr [PlaneResult 0 0 1 (- 1) 4]) \<and>
   detect_walls_ransac (\<lambda>i. 1) 2 2 1 1 0 0 (1 / 2) 3 1 (\<lambda>i. RansacPlaneResult 0 0 0 0 0) 1
     [0, 1, 2] =
     Some (Inr (1, (\<lambda>i. RansacPlaneResult 0 0 0 0 0) (0 := RansacPlaneResult 0 0 (- 1) 1 4)))"
  using early_exit_and_final_decision
          [of 3 2 2 "\<lambda>i. 1" 1 1 0 0 "1 / 2" 1 "[0, 1, 2]" "\<lambda>i. RansacPlaneResult 0 0 0 0 0" 1]
  by (simp add: app_cloud_2_2 wall_cloud_2_2 app_loop_2_2 wall_loop_2_2)

text \<open>
  C6 as stated fails for \<open>detect_walls_ransac\<close> when \<open>max_planes < 1\<close>: the cloud has
  four points, the loop ends with a best count of 4, which is at least \<open>min_inliers = 3\<close>,
  and yet the call returns 0 and writes no plane.
\<close>

theorem detect_walls_ransac_no_capacity_no_plane:
  "length (wall_point_cloud (\<lambda>i. 1) 2 2 1 1 0 0) = 4 \<and>
   ransac_loop (wall_iteration (wall_point_cloud (\<lambda>i. 1) 2 2 1 1 0 0) (1 / 2)) 1 0 [0, 1, 2]
     (Plane 0 0 0 0, - 1) = Some ((Plane 0 0 (- 1) 1, 4), []) \<and>
   detect_walls_ransac (\<lambda>i. 1) 2 2 1 1 0 0 (1 / 2) 3 1 (\<lambda>i. RansacPlaneResult 0 0 0 0 0) 0
     [0, 1, 2] = Some (Inr (0, \<lambda>i. RansacPlaneResult 0 0 0 0 0))"
  by (simp add: detect_walls_ransac_def reserve_2_2 size_t_of_int_def wall_cloud_2_2
        wall_loop_2_2)

section \<open>The output buffer\<close>

text \<open>
  C10. A call of \<open>detect_walls_ransac\<close> that returns, returns 0 or 1. When it returns 1,
  \<open>max_planes\<close> is at least 1 and the buffer differs from the caller's at index 0 only.
  When it returns 0 the buffer is the caller's, unchanged; with \<open>max_planes < 1\<close> it
  always returns 0.
\<close>

theorem output_buffer_frame:
  assumes "detect_walls_ransac depth_map_data width height fx fy cx cy distance_threshold
             min_inliers max_iterations out_planes_buffer max_planes rng
           = Some (Inr (ret, out'))"
  shows "(ret = 0 \<or> ret = 1) \<and>
         (ret = 1 \<longrightarrow> 1 \<le> max_planes \<and> min_inliers \<le> inlier_count (out' 0) \<and>
                      (\<forall>i. i \<noteq> 0 \<longrightarrow> out' i = out_planes_buffer i)) \<and>
         (ret = 0 \<longrightarrow> out' = out_planes_buffer) \<and>
         (max_planes < 1 \<longrightarrow> ret = 0)"
  using assms
  by (auto simp: detect_walls_ransac_def Let_def split: if_splits option.splits prod.splits)

theorem output_buffer_frame_witness:
  "detect_walls_ransac (\<lambda>i. 1) 2 2 1 1 0 0 (1 / 2) 4 1 (\<lambda>i. RansacPlaneResult 1 2 3 4 5) 2
     [0, 1, 2] =
     Some (Inr (1, (\<lambda>i. RansacPlaneResult 1 2 3 4 5) (0 := RansacPlaneResult 0 0 (- 1) 1 4))) \<and>
   (1::int) \<le> 2 \<and>
   (4::int) \<le> inlier_count
      (((\<lambda>i. RansacPlaneResult 1 2 3 4 5) (0 := RansacPlaneResult 0 0 (- 1) 1 4)) 0) \<and>
   ((\<lambda>i. RansacPlaneResult 1 2 3 4 5) (0 := RansacPlaneResult 0 0 (- 1) 1 4)) (1::nat) =
     RansacPlaneResult 1 2 3 4 5"
proof -
  have run: "detect_walls_ransac (\<lambda>i. 1) 2 2 1 1 0 0 (1 / 2) 4 1
      (\<lambda>i. RansacPlaneResult 1 2 3 4 5) 2 [0, 1, 2] =
     Some (Inr (1, (\<lambda>i. RansacPlaneResult 1 2 3 4 5) (0 := RansacPlaneResult 0 0 (- 1) 1 4)))"
    by (simp add: detect_walls_ransac_def reserve_2_2 size_t_of_int_def wall_cloud_2_2
          wall_loop_2_2)
  from output_buffer_frame [OF run] run show ?thesis
    by simp
qed

section \<open>Grids without cells\<close>

lemma negative_reserve_request_throws:
  assumes "width * height \<le> - 4" and "- (2 ^ 31) \<le> width * height"
  shows "findPlanesRansac depthMap width height fx fy cx cy thr minInliers maxIterations rng
           = Some (Inl length_error) \<and>
         detect_walls_ransac depthMap width height fx fy cx cy thr minInliers maxIterations
           out_planes_buffer max_planes rng = Some (Inl length_error)"
  using reserve_throws_negative [OF assms]
  by (simp add: findPlanesRansac_def detect_walls_ransac_def)

text \<open>
  C3 (amended). The estimators take no buffer length and test no dimension. A call with
  \<open>width \<le> 0\<close> or \<open>height \<le> 0\<close> whose reserve request \<open>width * height / 4\<close> is not
  negative, a call with a dimension of zero for one, reads no cell and returns the ordinary
  empty result: the empty vector from \<open>findPlanesRansac\<close>, the value 0 and an untouched
  buffer from \<open>detect_walls_ransac\<close>.
\<close>

theorem nonpositive_dimensions_give_empty_result:
  assumes "width \<le> 0 \<or> height \<le> 0"
    and "- 4 < width * height" and "width * height < 2 ^ 31"
  shows "findPlanesRansac depthMap width height fx fy cx cy thr minInliers maxIterations rng
           = Some (Inr []) \<and>
         detect_walls_ransac depthMap width height fx fy cx cy thr minInliers maxIterations
           out_planes_buffer max_planes rng = Some (Inr (0, out_planes_buffer))"
proof -
  have "\<not> reserve_throws (c_div (width * height) 4)"
    using assms (2, 3) reserve_ok [of "width * height"]
      reserve_ok_small_negative [of "width * height"]
    by (cases "0 \<le> width * height") simp_all
  with grid_cells_empty [OF assms (1)] show ?thesis
    by (simp add: findPlanesRansac_def detect_walls_ransac_def app_point_cloud_eq
          wall_point_cloud_eq)
qed

theorem nonpositive_dimensions_give_empty_result_witness:
  "((0::int) \<le> 0 \<or> (7::int) \<le> 0) \<and> - 4 < (0::int) * 7 \<and> (0::int) * 7 < 2 ^ 31 \<and>
   findPlanesRansac (\<lambda>i. 1) 0 7 1 1 0 0 (1 / 2) 3 10 [] = Some (Inr []) \<and>
   detect_walls_ransac (\<lambda>i. 1) 0 7 1 1 0 0 (1 / 2) 3 10 (\<lambda>i. RansacPlaneResult 0 0 0 0 0) 1 []
     = Some (Inr (0, \<lambda>i. RansacPlaneResult 0 0 0 0 0))"
  using nonpositive_dimensions_give_empty_result
          [of 0 7 "\<lambda>i. 1" 1 1 0 0 "1 / 2" 3 10 "[]" "\<lambda>i. RansacPlaneResult 0 0 0 0 0" 1]
  by simp

text \<open>
  C3 as stated fails: a call with \<open>width = 0\<close>, and a call with \<open>width = - 1\<close> and
  \<open>height = 3\<close>, are answered like a call on a 2 by 2 grid with no valid cell, by the
  empty result.
\<close>

theorem nonpositive_width_is_not_rejected:
  "findPlanesRansac (\<lambda>i. 1) 0 5 1 1 0 0 (1 / 2) 3 10 [0, 1, 2] = Some (Inr []) \<and>
   findPlanesRansac (\<lambda>i. 1) (- 1) 3 1 1 0 0 (1 / 2) 3 10 [0, 1, 2] = Some (Inr []) \<and>
   findPlanesRansac (\<lambda>i. 0) 2 2 1 1 0 0 (1 / 2) 3 10 [0, 1, 2] = Some (Inr []) \<and>
   detect_walls_ransac (\<lambda>i. 1) 0 5 1 1 0 0 (1 / 2) 3 10 (\<lambda>i. RansacPlaneResult 0 0 0 0 0) 1
     [0, 1, 2] = Some (Inr (0, \<lambda>i. RansacPlaneResult 0 0 0 0 0)) \<and>
   detect_walls_ransac (\<lambda>i. 1) (- 1) 3 1 1 0 0 (1 / 2) 3 10 (\<lambda>i. RansacPlaneResult 0 0 0 0 0) 1
     [0, 1, 2] = Some (Inr (0, \<lambda>i. RansacPlaneResult 0 0 0 0 0)) \<and>
   detect_walls_ransac (\<lambda>i. 0) 2 2 1 1 0 0 (1 / 2) 3 10 (\<lambda>i. RansacPlaneResult 0 0 0 0 0) 1
     [0, 1, 2] = Some (Inr (0, \<lambda>i. RansacPlaneResult 0 0 0 0 0))"
proof -
  have r: "\<not> reserve_throws (c_div (0 * 5) 4)" "\<not> reserve_throws (c_div (- 1 * 3) 4)"
    "\<not> reserve_throws (c_div (2 * 2) 4)"
    by (simp_all add: c_div_def reserve_throws_def size_t_of_int_def vector_max_size_def)
  show ?thesis
    using r
    by (simp add: findPlanesRansac_def detect_walls_ransac_def app_point_cloud_eq
          wall_point_cloud_eq grid_cells_2_2 grid_cells_empty app_cell_def wall_cell_def
          lit_1e_5_def lit_0_01f_def)
qed

section \<open>Runs and the indices they draw\<close>

text \<open>
  C2 (amended). Neither estimator has a seed parameter or a deterministic mode: each call
  seeds its generator from \<open>std::random_device\<close>. The result of a call is determined by
  its arguments together with the indices the generator yields during the call: a run that
  ends, ends the same way whatever the generator would have yielded afterwards.
\<close>

theorem result_determined_by_drawn_indices:
  "(findPlanesRansac depthMap width height fx fy cx cy thr minInliers maxIterations rng
      = Some planes \<longrightarrow>
    findPlanesRansac depthMap width height fx fy cx cy thr minInliers maxIterations
      (rng @ more) = Some planes)
   \<and>
   (detect_walls_ransac depthMap width height fx fy cx cy thr minInliers maxIterations
      out_planes_buffer max_planes rng = Some res \<longrightarrow>
    detect_walls_ransac depthMap width height fx fy cx cy thr minInliers maxIterations
      out_planes_buffer max_planes (rng @ more) = Some res)"
proof (intro conjI impI)
  let ?ps = "app_point_cloud depthMap width height fx fy cx cy"
  assume run: "findPlanesRansac depthMap width height fx fy cx cy thr minInliers
      maxIterations rng = Some planes"
  show "findPlanesRansac depthMap width height fx fy cx cy thr minInliers maxIterations
      (rng @ more) = Some planes"
  proof (cases "reserve_throws (c_div (width * height) 4) \<or>
                int (length ?ps) < size_t_of_int minInliers \<or> length ?ps < 3")
    case True
    with run show ?thesis
      by (auto simp: findPlanesRansac_def)
  next
    case False
    with run obtain b rng' where
      l: "ransac_loop (app_iteration ?ps thr) maxIterations 0 rng (Plane 0 0 0 0, - 1)
            = Some (b, rng')"
      by (auto simp: findPlanesRansac_def Let_def split: option.splits)
    have "ransac_loop (app_iteration ?ps thr) maxIterations 0 (rng @ more) (Plane 0 0 0 0, - 1)
            = Some (b, rng' @ more)"
      by (rule ransac_loop_append [OF l]) (simp add: app_iteration_append)
    with run l False show ?thesis
      by (simp add: findPlanesRansac_def Let_def split: prod.splits)
  qed
next
  let ?ps = "wall_point_cloud depthMap width height fx fy cx cy"
  assume run: "detect_walls_ransac depthMap width height fx fy cx cy thr minInliers
      maxIterations out_planes_buffer max_planes rng = Some res"
  show "detect_walls_ransac depthMap width height fx fy cx cy thr minInliers maxIterations
      out_planes_buffer max_planes (rng @ more) = Some res"
  proof (cases "reserve_throws (c_div (width * height) 4) \<or>
                length ?ps < 3 \<or> int (length ?ps) < size_t_of_int minInliers")
    case True
    with run show ?thesis
      by (auto simp: detect_walls_ransac_def)
  next
    case False
    with run obtain b rng' where
      l: "ransac_loop (wall_iteration ?ps thr) maxIterations 0 rng (Plane 0 0 0 0, - 1)
            = Some (b, rng')"
      by (auto simp: detect_walls_ransac_def Let_def split: option.splits)
    have "ransac_loop (wall_iteration ?ps thr) maxIterations 0 (rng @ more) (Plane 0 0 0 0, - 1)
            = Some (b, rng' @ more)"
      by (rule ransac_loop_append [OF l]) (simp add: wall_iteration_append)
    with run l False show ?thesis
      by (simp add: detect_walls_ransac_def Let_def split: prod.splits)
  qed
qed

theorem result_determined_by_drawn_indices_witness:
  "findPlanesRansac (\<lambda>i. 1) 2 2 1 1 0 0 (1 / 2) 3 1 [0, 1, 2] =
     Some (Inr [PlaneResult 0 0 1 (- 1) 4]) \<and>
   findPlanesRansac (\<lambda>i. 1) 2 2 1 1 0 0 (1 / 2) 3 1 ([0, 1, 2] @ [3, 3]) =
     Some (Inr [PlaneResult 0 0 1 (- 1) 4]) \<and>
   detect_walls_ransac (\<lambda>i. 1) 2 2 1 1 0 0 (1 / 2) 3 1 (\<lambda>i. RansacPlaneResult 0 0 0 0 0) 1
     [0, 1, 2] =
     Some (Inr (1, (\<lambda>i. RansacPlaneResult 0 0 0 0 0) (0 := RansacPlaneResult 0 0 (- 1) 1 4))) \<and>
   detect_walls_ransac (\<lambda>i. 1) 2 2 1 1 0 0 (1 / 2) 3 1 (\<lambda>i. RansacPlaneResult 0 0 0 0 0) 1
     ([0, 1, 2] @ [3, 3]) =
     Some (Inr (1, (\<lambda>i. RansacPlaneResult 0 0 0 0 0) (0 := RansacPlaneResult 0 0 (- 1) 1 4)))"
proof -
  have app: "findPlanesRansac (\<lambda>i. 1) 2 2 1 1 0 0 (1 / 2) 3 1 [0, 1, 2] =
     Some (Inr [PlaneResult 0 0 1 (- 1) 4])"
    by (simp add: findPlanesRansac_def reserve_2_2 size_t_of_int_def app_cloud_2_2 app_loop_2_2)
  have wall: "detect_walls_ransac (\<lambda>i. 1) 2 2 1 1 0 0 (1 / 2) 3 1
      (\<lambda>i. RansacPlaneResult 0 0 0 0 0) 1 [0, 1, 2] =
     Some (Inr (1, (\<lambda>i. RansacPlaneResult 0 0 0 0 0) (0 := RansacPlaneResult 0 0 (- 1) 1 4)))"
    by (simp add: detect_walls_ransac_def reserve_2_2 size_t_of_int_def wall_cloud_2_2
          wall_loop_2_2)
  from result_determined_by_drawn_indices
         [of "\<lambda>i. 1" 2 2 1 1 0 0 "1 / 2" 3 1 "[0, 1, 2]"
             "Inr [PlaneResult 0 0 1 (- 1) 4]" "[3, 3]"
             "\<lambda>i. RansacPlaneResult 0 0 0 0 0" 1
             "Inr (1, (\<lambda>i. RansacPlaneResult 0 0 0 0 0) (0 := RansacPlaneResult 0 0 (- 1) 1 4))"]
       app wall
  show ?thesis by blast
qed

text \<open>
  C2 as stated fails: no mode fixes the seed, and two calls with the same arguments can
  differ. On four coplanar points the triples 0, 1, 2 and 0, 2, 1 give opposite normals.
\<close>

theorem same_arguments_different_results:
  "findPlanesRansac (\<lambda>i. 1) 2 2 1 1 0 0 (1 / 2) 3 1 [0, 1, 2] =
     Some (Inr [PlaneResult 0 0 1 (- 1) 4]) \<and>
   findPlanesRansac (\<lambda>i. 1) 2 2 1 1 0 0 (1 / 2) 3 1 [0, 2, 1] =
     Some (Inr [PlaneResult 0 0 (- 1) 1 4]) \<and>
   detect_walls_ransac (\<lambda>i. 1) 2 2 1 1 0 0 (1 / 2) 3 1 (\<lambda>i. RansacPlaneResult 0 0 0 0 0) 1
     [0, 1, 2] =
     Some (Inr (1, (\<lambda>i. RansacPlaneResult 0 0 0 0 0) (0 := RansacPlaneResult 0 0 (- 1) 1 4))) \<and>
   detect_walls_ransac (\<lambda>i. 1) 2 2 1 1 0 0 (1 / 2) 3 1 (\<lambda>i. RansacPlaneResult 0 0 0 0 0) 1
     [0, 2, 1] =
     Some (Inr (1, (\<lambda>i. RansacPlaneResult 0 0 0 0 0) (0 := RansacPlaneResult 0 0 1 (- 1) 4)))"
  using reserve_2_2
  by (simp add: findPlanesRansac_def detect_walls_ransac_def size_t_of_int_def
        app_cloud_2_2 wall_cloud_2_2 ransac_loop.simps
        app_iteration_def wall_iteration_def wall_sample_def draw_triple_def draw_def
        wall_while_idx2.simps wall_while_idx3.simps
        app_candidate_def wall_candidate_def calculatePlane_def float_epsilon_def lit_1e_6_def
        pointPlaneDistance_def update_best_def Let_def)

section \<open>Normals in exact arithmetic\<close>

text \<open>
  With exact real arithmetic the normal of every scored candidate has length 1, and a plane
  that an estimator emits is a scored candidate with at least \<open>minInliers\<close> inliers.
  These lemmas say nothing about single-precision rounding, overflow or NaN.
\<close>

lemma normalised_unit:
  fixes a b c :: real
  assumes "0 < sqrt (a * a + b * b + c * c)"
  shows "(a / sqrt (a * a + b * b + c * c))\<^sup>2 + (b / sqrt (a * a + b * b + c * c))\<^sup>2
         + (c / sqrt (a * a + b * b + c * c))\<^sup>2 = 1"
proof -
  define s where "s = a * a + b * b + c * c"
  from assms have s: "0 < s" by (simp add: s_def)
  then have sq: "(sqrt s)\<^sup>2 = s" by simp
  have "(a / sqrt s)\<^sup>2 + (b / sqrt s)\<^sup>2 + (c / sqrt s)\<^sup>2
        = (a * a + b * b + c * c) / (sqrt s)\<^sup>2"
    by (simp only: power_divide add_divide_distrib power2_eq_square [of a]
          power2_eq_square [of b] power2_eq_square [of c])
  also have "\<dots> = s / s" using sq by (simp add: s_def)
  also from s have "\<dots> = 1" by simp
  finally show ?thesis by (simp only: s_def)
qed

lemma calculatePlane_unit_normal:
  assumes "calculatePlane p1 p2 p3 = Some plane"
  shows "(pl_a plane)\<^sup>2 + (pl_b plane)\<^sup>2 + (pl_c plane)\<^sup>2 = 1"
proof -
  let ?a = "(p_y p2 - p_y p1) * (p_z p3 - p_z p1) - (p_z p2 - p_z p1) * (p_y p3 - p_y p1)"
  let ?b = "(p_z p2 - p_z p1) * (p_x p3 - p_x p1) - (p_x p2 - p_x p1) * (p_z p3 - p_z p1)"
  let ?c = "(p_x p2 - p_x p1) * (p_y p3 - p_y p1) - (p_y p2 - p_y p1) * (p_x p3 - p_x p1)"
  let ?len = "sqrt (?a * ?a + ?b * ?b + ?c * ?c)"
  from assms have len: "float_epsilon * 100 < ?len"
    and plane: "pl_a plane = ?a / ?len" "pl_b plane = ?b / ?len" "pl_c plane = ?c / ?len"
    by (auto simp: calculatePlane_def Let_def split: if_splits)
  have "0 < float_epsilon * 100" by (simp add: float_epsilon_def)
  with len have "0 < ?len" by linarith
  from normalised_unit [OF this] show ?thesis
    by (simp only: plane)
qed

lemma app_iteration_unit_normal:
  "app_iteration ps thr rng = Some (Scored plane n, rng') \<Longrightarrow>
     (pl_a plane)\<^sup>2 + (pl_b plane)\<^sup>2 + (pl_c plane)\<^sup>2 = 1"
  by (auto simp: app_iteration_def app_candidate_def
           split: option.splits prod.splits if_splits dest: calculatePlane_unit_normal)

lemma wall_candidate_unit_normal:
  assumes "wall_candidate ps thr (idx1, idx2, idx3) = Scored plane n"
  shows "(pl_a plane)\<^sup>2 + (pl_b plane)\<^sup>2 + (pl_c plane)\<^sup>2 = 1"
proof -
  let ?p1 = "ps ! idx1" and ?p2 = "ps ! idx2" and ?p3 = "ps ! idx3"
  let ?a = "(p_y ?p2 - p_y ?p1) * (p_z ?p3 - p_z ?p1) - (p_z ?p2 - p_z ?p1) * (p_y ?p3 - p_y ?p1)"
  let ?b = "(p_z ?p2 - p_z ?p1) * (p_x ?p3 - p_x ?p1) - (p_x ?p2 - p_x ?p1) * (p_z ?p3 - p_z ?p1)"
  let ?c = "(p_x ?p2 - p_x ?p1) * (p_y ?p3 - p_y ?p1) - (p_y ?p2 - p_y ?p1) * (p_x ?p3 - p_x ?p1)"
  let ?len = "sqrt (?a * ?a + ?b * ?b + ?c * ?c)"
  from assms have len: "lit_1e_6 \<le> ?len"
    and plane: "pl_a plane = ?a / ?len" "pl_b plane = ?b / ?len" "pl_c plane = ?c / ?len"
    by (auto simp: wall_candidate_def Let_def not_less split: if_splits)
  have "0 < lit_1e_6" by (simp add: lit_1e_6_def)
  with len have "0 < ?len" by linarith
  from normalised_unit [OF this] show ?thesis
    by (simp only: plane)
qed

lemma wall_iteration_unit_normal:
  "wall_iteration ps thr rng = Some (Scored plane n, rng') \<Longrightarrow>
     (pl_a plane)\<^sup>2 + (pl_b plane)\<^sup>2 + (pl_c plane)\<^sup>2 = 1"
  by (auto simp: wall_iteration_def split: option.splits prod.splits
           dest: wall_candidate_unit_normal)

lemma retained_plane_is_scored:
  assumes run: "ransac_loop body maxIterations 0 rng (Plane 0 0 0 0, - 1) = Some ((plane, n), rng')"
    and n: "0 \<le> n"
    and P: "\<forall>rng rng' plane n. body rng = Some (Scored plane n, rng') \<longrightarrow> P (plane, n)"
  shows "P (plane, n)"
proof -
  let ?init = "(Plane 0 0 0 0, - 1 :: int)"
  from run ransac_loop_outcomes [of body maxIterations 0 rng ?init]
  obtain ocs where ocs: "loop_outcomes body maxIterations 0 rng = Some ocs"
    and best: "foldl update_best ?init ocs = (plane, n)"
    by (cases "loop_outcomes body maxIterations 0 rng") auto
  from loop_outcomes_scored_all [OF ocs P] have all: "list_all P (scored ocs)" .
  from foldl_update_best_first_max [OF best] n
  obtain pre suf where "scored ocs = pre @ (plane, n) # suf"
    by auto
  with all show ?thesis by simp
qed

lemma emitted_plane_exact_arithmetic:
  assumes "0 \<le> minInliers"
  shows "(findPlanesRansac depthMap width height fx fy cx cy thr minInliers maxIterations rng
            = Some (Inr planes) \<longrightarrow>
          list_all (\<lambda>r. (res_A r)\<^sup>2 + (res_B r)\<^sup>2 + (res_C r)\<^sup>2 = 1 \<and>
                         minInliers \<le> numInliers r) planes)
         \<and>
         (detect_walls_ransac depthMap width height fx fy cx cy thr minInliers maxIterations
            out_planes_buffer max_planes rng = Some (Inr (1, out')) \<longrightarrow>
          (out_a (out' 0))\<^sup>2 + (out_b (out' 0))\<^sup>2 + (out_c (out' 0))\<^sup>2 = 1 \<and>
          minInliers \<le> inlier_count (out' 0))"
proof (rule conjI; rule impI)
  let ?unit = "\<lambda>q. (pl_a (fst q))\<^sup>2 + (pl_b (fst q))\<^sup>2 + (pl_c (fst q))\<^sup>2 = (1::real)"
  let ?ps = "app_point_cloud depthMap width height fx fy cx cy"
  assume run: "findPlanesRansac depthMap width height fx fy cx cy thr minInliers
      maxIterations rng = Some (Inr planes)"
  show "list_all (\<lambda>r. (res_A r)\<^sup>2 + (res_B r)\<^sup>2 + (res_C r)\<^sup>2 = 1 \<and>
                       minInliers \<le> numInliers r) planes"
  proof (cases planes)
    case (Cons r rs)
    with run obtain plane n rng' where
      l: "ransac_loop (app_iteration ?ps thr) maxIterations 0 rng (Plane 0 0 0 0, - 1)
            = Some ((plane, n), rng')"
      and n: "minInliers \<le> n"
      and r: "planes = [PlaneResult (pl_a plane) (pl_b plane) (pl_c plane) (pl_d plane) n]"
      by (auto simp: findPlanesRansac_def Let_def split: if_splits option.splits)
    have "?unit (plane, n)"
      by (rule retained_plane_is_scored [where P = ?unit, OF l])
         (use n assms in \<open>auto dest: app_iteration_unit_normal\<close>)
    with n r show ?thesis by simp
  qed simp
next
  let ?unit = "\<lambda>q. (pl_a (fst q))\<^sup>2 + (pl_b (fst q))\<^sup>2 + (pl_c (fst q))\<^sup>2 = (1::real)"
  let ?ps = "wall_point_cloud depthMap width height fx fy cx cy"
  assume run: "detect_walls_ransac depthMap width height fx fy cx cy thr minInliers
      maxIterations out_planes_buffer max_planes rng = Some (Inr (1, out'))"
  then obtain plane n rng' where
    l: "ransac_loop (wall_iteration ?ps thr) maxIterations 0 rng (Plane 0 0 0 0, - 1)
          = Some ((plane, n), rng')"
    and n: "minInliers \<le> n"
    and r: "out' 0 = RansacPlaneResult (pl_a plane) (pl_b plane) (pl_c plane) (pl_d plane) n"
    by (auto simp: detect_walls_ransac_def Let_def split: if_splits option.splits)
  have "?unit (plane, n)"
    by (rule retained_plane_is_scored [where P = ?unit, OF l])
       (use n assms in \<open>auto dest: wall_iteration_unit_normal\<close>)
  with n r show "(out_a (out' 0))\<^sup>2 + (out_b (out' 0))\<^sup>2 + (out_c (out' 0))\<^sup>2 = 1 \<and>
          minInliers \<le> inlier_count (out' 0)"
    by simp
qed

section \<open>Emitted planes and overflow\<close>

text \<open>
  C7. Every plane an estimator emits should have a normal of length 1 with no NaN or
  infinite component, and at least \<open>minInliers\<close> inliers. The code breaks the first two
  when a product of the normalisation overflows. On a 2 by 2 grid of inverse depth 1 with
  \<open>cx = cy = 0\<close> and the draws 0, 1, 2, every value below is a power of two and no
  operation rounds. With \<open>fx = fy = 2^-40\<close> the cross product is \<open>(0, 0, \<plusminus>2^80)\<close>, the
  square of its last component overflows, the magnitude is infinite, passes both tests of
  degeneracy, and the normal becomes \<open>(0, 0, 0)\<close>: all four points are inliers and the
  plane is emitted for \<open>minInliers = 3\<close>. With \<open>fx = fy = 2^-70\<close> the last component
  itself overflows, its quotient by the magnitude is NaN, the test \<open>isnan\<close> of
  \<open>findPlanesRansac\<close> sees the first component only, no point is an inlier, and the plane
  \<open>(0, 0, NaN, NaN)\<close> is emitted for \<open>minInliers = 0\<close>.
\<close>

theorem overflow_emits_unnormalised_plane:
  "fl_findPlanesRansac (\<lambda>i. Fin 1) 2 2 (Fin (1 / 2 ^ 40)) (Fin (1 / 2 ^ 40)) (Fin 0) (Fin 0)
     (Fin (1 / 2)) 3 1 [0, 1, 2] =
     Some (Inr [FPlaneResult (Fin 0) (Fin 0) (Fin 0) (Fin 0) 4]) \<and>
   fl_findPlanesRansac (\<lambda>i. Fin 1) 2 2 (Fin (1 / 2 ^ 70)) (Fin (1 / 2 ^ 70)) (Fin 0) (Fin 0)
     (Fin (1 / 2)) 0 1 [0, 1, 2] =
     Some (Inr [FPlaneResult (Fin 0) (Fin 0) NaN NaN 0]) \<and>
   fl_detect_walls_ransac (\<lambda>i. Fin 1) 2 2 (Fin (1 / 2 ^ 40)) (Fin (1 / 2 ^ 40)) (Fin 0) (Fin 0)
     (Fin (1 / 2)) 3 1 (\<lambda>i. FRansacPlaneResult (Fin 0) (Fin 0) (Fin 1) (Fin 0) 0) 1 [0, 1, 2] =
     Some (Inr (1, (\<lambda>i. FRansacPlaneResult (Fin 0) (Fin 0) (Fin 1) (Fin 0) 0)
                     (0 := FRansacPlaneResult (Fin 0) (Fin 0) (Fin 0) (Fin 0) 4))) \<and>
   fl_detect_walls_ransac (\<lambda>i. Fin 1) 2 2 (Fin (1 / 2 ^ 70)) (Fin (1 / 2 ^ 70)) (Fin 0) (Fin 0)
     (Fin (1 / 2)) 0 1 (\<lambda>i. FRansacPlaneResult (Fin 0) (Fin 0) (Fin 1) (Fin 0) 0) 1 [0, 1, 2] =
     Some (Inr (1, (\<lambda>i. FRansacPlaneResult (Fin 0) (Fin 0) (Fin 1) (Fin 0) 0)
                     (0 := FRansacPlaneResult (Fin 0) (Fin 0) NaN NaN 0)))"
  using reserve_2_2
  by (simp add: fl_findPlanesRansac_def fl_detect_walls_ransac_def size_t_of_int_def
        fl_app_point_cloud_eq fl_wall_point_cloud_eq grid_cells_2_2 fl_app_cell_def
        fl_wall_cell_def fl_of_int_def lit_1e_5_def lit_1000f_def lit_0_01f_def
        fl_ransac_loop.simps
        fl_app_iteration_def fl_wall_iteration_def wall_sample_def draw_triple_def draw_def
        wall_while_idx2.simps wall_while_idx3.simps
        fl_app_candidate_def fl_wall_candidate_def fl_calculatePlane_def float_epsilon_def
        lit_1e_6_def fl_pointPlaneDistance_def fl_update_best_def minus_fl_def deliver_def
        flt_max_def Let_def)

end
